theory Spec2Isabelle
  imports Main "HOL-Library.AList" "HOL-Library.Sublist"
begin

section \<open>JavaScript values\<close>

text \<open>
  The console talks JSON between its client (\<open>lib/api.ts\<close>, in the sources as
  \<open>src/unnamed/part_001\<close>) and its server (\<open>src-server/rpc.ts\<close>, in the sources as the
  second document of \<open>components/ui/checkbox.tsx\<close>). A JSON object is an association
  list; reading a property that is absent gives \<open>undefined\<close>, here \<open>None\<close>.
  The Vietnamese message literals of the source are written without their diacritics,
  since the theory is ASCII; nothing depends on their text.
\<close>

datatype json =
    JNull
  | JBool bool
  | JNum int
  | JStr string
  | JArr "json list"
  | JObj "(string \<times> json) list"

type_synonym obj = "(string \<times> json) list"

definition get_prop :: "obj \<Rightarrow> string \<Rightarrow> json option" where
  "get_prop data k = map_of data k"

text \<open>JavaScript truthiness of a value that may be \<open>undefined\<close>.\<close>

fun truthy :: "json option \<Rightarrow> bool" where
  "truthy None = False"
| "truthy (Some JNull) = False"
| "truthy (Some (JBool b)) = b"
| "truthy (Some (JNum n)) = (n \<noteq> 0)"
| "truthy (Some (JStr s)) = (s \<noteq> [])"
| "truthy (Some (JArr xs)) = True"
| "truthy (Some (JObj kvs)) = True"

text \<open>
  The object literal \<open>{ success: true, ...data }\<close>: the properties of \<open>data\<close> are
  assigned over the ones written before the spread. \<open>AList.merge\<close> does that, and reads
  a key that \<open>data\<close> lists twice as \<open>get_prop\<close> does.
\<close>

definition spread :: "obj \<Rightarrow> obj \<Rightarrow> obj" where
  "spread base data = AList.merge base data"

text \<open>
  A thrown value: an \<open>Error\<close> instance with its message, or a primitive string.
  \<open>thrown_text\<close> is the source's
  \<open>error instanceof Error ? error.message : String(error)\<close>.
\<close>

datatype js_thrown = JsError string | JsString string

fun thrown_text :: "js_thrown \<Rightarrow> string" where
  "thrown_text (JsError m) = m"
| "thrown_text (JsString s) = s"

text \<open>The outcome of an awaited request: it resolves with a value or rejects.\<close>

datatype 'a fetched = Resolved 'a | Rejected js_thrown

record http_response =
  status :: nat
  body :: obj

definition json_reply :: "obj \<Rightarrow> nat \<Rightarrow> http_response" where
  "json_reply data code = \<lparr>status = code, body = data\<rparr>"

text \<open>\<open>process.env\<close>: a variable is unset or a string; \<open>!x\<close> holds for both unset and empty.\<close>

record env =
  HOT_UPDATER_CLOUDFLARE_API_TOKEN :: "string option"
  HOT_UPDATER_CLOUDFLARE_ACCOUNT_ID :: "string option"
  HOT_UPDATER_CLOUDFLARE_R2_BUCKET_NAME :: "string option"
  HOT_UPDATER_CLOUDFLARE_D1_DATABASE_ID :: "string option"

fun falsy_str :: "string option \<Rightarrow> bool" where
  "falsy_str None = True"
| "falsy_str (Some s) = (s = [])"

definition r2_config_missing :: "env \<Rightarrow> bool" where
  "r2_config_missing e =
     (falsy_str (HOT_UPDATER_CLOUDFLARE_API_TOKEN e)
      \<or> falsy_str (HOT_UPDATER_CLOUDFLARE_ACCOUNT_ID e)
      \<or> falsy_str (HOT_UPDATER_CLOUDFLARE_R2_BUCKET_NAME e))"

section \<open>The metadata store\<close>

datatype platform = Ios | Android

record Bundle =
  bundle_id :: string
  channel :: string
  bundle_platform :: platform
  targetAppVersion :: string
  bundle_message :: string
  enabled :: bool
  shouldForceUpdate :: bool

text \<open>
  Modelled from the spec: the \<open>DatabasePlugin\<close> of \<open>@hot-updater/plugin-core\<close>, whose
  implementation is not among the sources. \<open>updateBundle\<close> stages a mutation and
  \<open>commitBundle\<close> flushes the staged mutations into the rows; either may throw, which the
  fields \<open>update_fault\<close> and \<open>commit_fault\<close> decide. The handlers modelled here pass the
  partial bundle \<open>{ enabled: false }\<close> only, so a staged mutation is the new value of
  \<open>enabled\<close>.
\<close>

record database =
  rows :: "string \<Rightarrow> Bundle option"
  staged :: "(string \<times> bool) list"
  update_fault :: "js_thrown option"
  commit_fault :: "js_thrown option"

definition updateBundle :: "database \<Rightarrow> string \<Rightarrow> bool \<Rightarrow> js_thrown + database" where
  "updateBundle db bundleId en =
     (case update_fault db of
        Some e \<Rightarrow> Inl e
      | None \<Rightarrow> Inr (db\<lparr>staged := staged db @ [(bundleId, en)]\<rparr>))"

definition apply_staged :: "(string \<times> bool) list \<Rightarrow> (string \<Rightarrow> Bundle option) \<Rightarrow> (string \<Rightarrow> Bundle option)" where
  "apply_staged st m =
     fold (\<lambda>(i, en) acc. case acc i of None \<Rightarrow> acc | Some b \<Rightarrow> acc(i \<mapsto> b\<lparr>enabled := en\<rparr>)) st m"

definition commitBundle :: "database \<Rightarrow> js_thrown + database" where
  "commitBundle db =
     (case commit_fault db of
        Some e \<Rightarrow> Inl e
      | None \<Rightarrow> Inr (db\<lparr>rows := apply_staged (staged db) (rows db), staged := []\<rparr>))"

section \<open>The server: soft delete and disable\<close>

text \<open>
  \<open>prepareConfig()\<close> resolves with the loaded configuration and the database plugin, or
  rejects. The storage plugin of the configuration is optional; when present, its
  \<open>deleteBundle\<close> resolves with the bundle id or rejects (a failure to construct the
  plugin is caught by the same \<open>try\<close> and is a rejection here too).
\<close>

record config =
  storage :: "(string \<Rightarrow> js_thrown + string) option"

text \<open>The outer \<open>catch\<close> of the bundle routes: \<open>{ error: error.message }\<close> for an object
  with a message, \<open>{ error: "Unknown error" }\<close> otherwise, both with status 500.\<close>

fun outer_catch :: "js_thrown \<Rightarrow> http_response" where
  "outer_catch (JsError m) = json_reply [(''error'', JStr m)] 500"
| "outer_catch (JsString s) = json_reply [(''error'', JStr ''Unknown error'')] 500"

text \<open>Lines 203 to 226 of the route: \<open>storageError\<close> is \<open>null\<close> (\<open>None\<close>) or the captured text.\<close>

definition storage_branch :: "config \<Rightarrow> string \<Rightarrow> string option" where
  "storage_branch cfg bundleId =
     (case storage cfg of
        None \<Rightarrow> None
      | Some storagePlugin \<Rightarrow>
          (case storagePlugin bundleId of
             Inr _ \<Rightarrow> None
           | Inl error \<Rightarrow>
               if error = JsError ''Bundle Not Found'' then None
               else Some (thrown_text error)))"

text \<open>\<open>rpc.delete("/bundles/:bundleId")\<close>. \<open>if (storageError)\<close> tests truthiness: \<open>null\<close>
  and the empty string both fail it.\<close>

definition db_error_reply :: "js_thrown \<Rightarrow> http_response" where
  "db_error_reply dbError =
     json_reply [(''success'', JBool False), (''error'', JStr (thrown_text dbError))] 500"

definition rpc_delete_bundle ::
  "js_thrown + config \<Rightarrow> database \<Rightarrow> string \<Rightarrow> http_response \<times> database" where
  "rpc_delete_bundle prepared db bundleId =
     (case prepared of
        Inl error \<Rightarrow> (outer_catch error, db)
      | Inr cfg \<Rightarrow>
          (let storageError = storage_branch cfg bundleId in
           case updateBundle db bundleId False of
             Inl dbError \<Rightarrow> (db_error_reply dbError, db)
           | Inr db1 \<Rightarrow>
               (case commitBundle db1 of
                  Inl dbError \<Rightarrow> (db_error_reply dbError, db1)
                | Inr db2 \<Rightarrow>
                    (case storageError of
                       Some (c # cs) \<Rightarrow>
                         (json_reply
                            [(''success'', JBool True),
                             (''partialSuccess'', JBool True),
                             (''storageError'', JStr (c # cs)),
                             (''message'', JStr ''Bundle da bi xoa khoi database nhung khong the xoa file tu storage'')]
                            200, db2)
                     | _ \<Rightarrow>
                         (json_reply
                            [(''success'', JBool True),
                             (''message'', JStr ''Bundle da duoc xoa thanh cong'')]
                            200, db2)))))"

text \<open>\<open>rpc.post("/bundles/:bundleId/disable")\<close>: one \<open>try\<close> around everything.\<close>

definition rpc_disable_bundle ::
  "js_thrown + config \<Rightarrow> database \<Rightarrow> string \<Rightarrow> http_response \<times> database" where
  "rpc_disable_bundle prepared db bundleId =
     (case prepared of
        Inl error \<Rightarrow> (outer_catch error, db)
      | Inr cfg \<Rightarrow>
          (case updateBundle db bundleId False of
             Inl error \<Rightarrow> (outer_catch error, db)
           | Inr db1 \<Rightarrow>
               (case commitBundle db1 of
                  Inl error \<Rightarrow> (outer_catch error, db1)
                | Inr db2 \<Rightarrow>
                    (json_reply
                       [(''success'', JBool True),
                        (''message'', JStr ''Bundle da bi vo hieu hoa thanh cong'')]
                       200, db2))))"

section \<open>The R2 storage plugin\<close>

text \<open>
  \<open>r2Storage(config).deleteBundle\<close> (\<open>src/unnamed/part_000\<close>). The wrangler command line
  tool is outside the repository: it is a parameter that acts on a remote state and
  either returns (\<open>None\<close>) or throws. \<open>js_includes\<close> is \<open>String.prototype.includes\<close>.
\<close>

fun js_includes :: "string \<Rightarrow> string \<Rightarrow> bool" where
  "js_includes [] p = (p = [])"
| "js_includes (c # cs) p = (prefix p (c # cs) \<or> js_includes cs p)"

record R2StorageConfig =
  cloudflareApiToken :: string
  accountId :: string
  bucketName :: string

definition delete_command :: "R2StorageConfig \<Rightarrow> string \<Rightarrow> string list" where
  "delete_command rcfg bundleId =
     [''r2'', ''object'', ''delete'', bucketName rcfg @ ''/'' @ bundleId, ''--remote'']"

definition r2Storage_deleteBundle ::
  "('s \<Rightarrow> string list \<Rightarrow> js_thrown option \<times> 's) \<Rightarrow> R2StorageConfig \<Rightarrow> 's \<Rightarrow> string
     \<Rightarrow> (js_thrown + string) \<times> 's" where
  "r2Storage_deleteBundle wrangler rcfg s bundleId =
     (case wrangler s (delete_command rcfg bundleId) of
        (None, s') \<Rightarrow> (Inr bundleId, s')
      | (Some error, s') \<Rightarrow>
          (case error of
             JsError m \<Rightarrow>
               if m = ''Bundle Not Found'' then (Inr bundleId, s')
               else if js_includes m ''wrangler: command not found''
                       \<or> js_includes m ''Command failed with exit code 127''
               then (Inl (JsError ''Wrangler CLI khong duoc tim thay. Vui long cai dat bang lenh: npm install -g wrangler''), s')
               else (Inl (JsError (''Failed to delete bundle '' @ bundleId @ '' from R2: '' @ m)), s')
           | JsString t \<Rightarrow>
               (Inl (JsError (''Failed to delete bundle '' @ bundleId @ '' from R2: '' @ t)), s')))"

text \<open>
  A remote store to run the plugin against: it holds the stored paths
  (\<open>bucket/key\<close>); deleting a stored path removes it, deleting an absent one is reported
  with the not-found error the plugin looks for, and an outage (authentication,
  network, rate limit) fails every command.
\<close>

record r2_remote =
  stored :: "string list"
  outage :: "js_thrown option"

definition wrangler_remote :: "r2_remote \<Rightarrow> string list \<Rightarrow> js_thrown option \<times> r2_remote" where
  "wrangler_remote s args =
     (case outage s of
        Some e \<Rightarrow> (Some e, s)
      | None \<Rightarrow>
          (case args of
             [a, b, c, path, d] \<Rightarrow>
               if path \<in> set (stored s)
               then (None, s\<lparr>stored := removeAll path (stored s)\<rparr>)
               else (Some (JsError ''Bundle Not Found''), s)
           | _ \<Rightarrow> (Some (JsError ''Unknown command''), s)))"

section \<open>The client: deleteBundle and disableBundle\<close>

text \<open>
  \<open>deleteBundle\<close> and \<open>disableBundle\<close> of \<open>lib/api.ts\<close> (\<open>src/unnamed/part_001\<close>). The
  request and the parsing of its JSON body either resolve with the body or reject; the
  status of the response is never read.
\<close>

definition deleteBundle :: "(string \<Rightarrow> obj fetched) \<Rightarrow> string \<Rightarrow> obj" where
  "deleteBundle api_delete bundleId =
     (case api_delete bundleId of
        Resolved data \<Rightarrow> spread [(''success'', JBool True)] data
      | Rejected error \<Rightarrow>
          [(''success'', JBool False), (''error'', JStr (thrown_text error))])"

definition disableBundle :: "(string \<Rightarrow> obj fetched) \<Rightarrow> string \<Rightarrow> obj" where
  "disableBundle api_disable bundleId =
     (case api_disable bundleId of
        Resolved data \<Rightarrow> spread [(''success'', JBool True)] data
      | Rejected error \<Rightarrow>
          [(''success'', JBool False), (''error'', JStr (thrown_text error))])"

text \<open>A route of the server as the client reaches it when the transport works.\<close>

definition served :: "(string \<Rightarrow> http_response \<times> 'a) \<Rightarrow> string \<Rightarrow> obj fetched" where
  "served route bundleId = Resolved (body (fst (route bundleId)))"

section \<open>Strings of numbers and values\<close>

text \<open>What a template literal writes for a number and for a JSON value
  (\<open>String(x)\<close>; \<open>undefined\<close> is \<open>None\<close>).\<close>

fun show_nat :: "nat \<Rightarrow> string" where
  "show_nat n =
     (if n < 10 then [''0123456789'' ! n]
      else show_nat (n div 10) @ [''0123456789'' ! (n mod 10)])"

declare show_nat.simps [simp del]

definition show_int :: "int \<Rightarrow> string" where
  "show_int i = (if i < 0 then CHR ''-'' # show_nat (nat (- i)) else show_nat (nat i))"

primrec js_string :: "json \<Rightarrow> string" and js_join :: "json list \<Rightarrow> string" where
  "js_string JNull = ''null''"
| "js_string (JBool b) = (if b then ''true'' else ''false'')"
| "js_string (JNum n) = show_int n"
| "js_string (JStr t) = t"
| "js_string (JArr xs) = js_join xs"
| "js_string (JObj kvs) = ''[object Object]''"
| "js_join [] = []"
| "js_join (x # xs) =
     (if x = JNull then [] else js_string x) @ (if xs = [] then [] else '','' @ js_join xs)"

fun template :: "json option \<Rightarrow> string" where
  "template None = ''undefined''"
| "template (Some v) = js_string v"

section \<open>Requests to Cloudflare\<close>

text \<open>
  The Cloudflare API is outside the repository. A request either rejects or resolves
  with a response: \<open>CfOk\<close> when \<open>response.ok\<close> holds, with what \<open>response.json()\<close>
  gives (typed as the route casts it), or \<open>CfNotOk\<close> with the status, the status text,
  \<open>response.text()\<close> and \<open>response.json()\<close>. Each route takes the API as a parameter
  and returns, beside its response, the requests it sent.
\<close>

datatype ('a, 'e) cf_response =
    CfOk "js_thrown + 'a"
  | CfNotOk nat string string "js_thrown + 'e"

record list_query =
  q_prefix :: "string option"
  q_limit :: "nat option"

datatype cf_call =
    ListObjects list_query
  | DeleteObject string
  | D1DeleteBundle string

record r2_object =
  object_key :: string
  object_size :: nat
  uploaded :: string

record R2Result =
  objects :: "r2_object list"
  truncated :: bool

definition object_json :: "r2_object \<Rightarrow> json" where
  "object_json x =
     JObj [(''key'', JStr (object_key x)), (''size'', JNum (int (object_size x))),
           (''uploaded'', JStr (uploaded x))]"

text \<open>The two shapes of the routes' last \<open>catch\<close>: the text of the thrown value, or
  \<open>"Unknown error"\<close> for a value that is not an \<open>Error\<close>; both with status 500.\<close>

definition catch_reply :: "js_thrown \<Rightarrow> http_response" where
  "catch_reply error =
     json_reply [(''success'', JBool False), (''error'', JStr (thrown_text error))] 500"

fun catch_reply_unknown :: "js_thrown \<Rightarrow> http_response" where
  "catch_reply_unknown (JsError m) =
     json_reply [(''success'', JBool False), (''error'', JStr m)] 500"
| "catch_reply_unknown (JsString t) =
     json_reply [(''success'', JBool False), (''error'', JStr ''Unknown error'')] 500"

section \<open>The server: the R2 routes\<close>

text \<open>\<open>rpc.post("/r2/delete/:bundleId")\<close>. \<open>JSON.stringify\<close> is a parameter.\<close>

definition rpc_r2_delete ::
  "env \<Rightarrow> (string \<Rightarrow> (unit, json) cf_response fetched) \<Rightarrow> (json \<Rightarrow> string) \<Rightarrow> string
     \<Rightarrow> http_response \<times> cf_call list" where
  "rpc_r2_delete e cf_delete stringify bundleId =
     (if r2_config_missing e
      then (json_reply [(''success'', JBool False),
                        (''error'', JStr ''Thieu thong tin cau hinh Cloudflare R2'')] 400, [])
      else
        (let objectKey = bundleId @ ''/bundle.zip'' in
         case cf_delete objectKey of
           Rejected error \<Rightarrow> (catch_reply error, [DeleteObject objectKey])
         | Resolved (CfNotOk st stText txt js) \<Rightarrow>
             (json_reply
                [(''success'', JBool False),
                 (''error'', JStr (case js of
                     Inr errorData \<Rightarrow> ''Loi R2: '' @ stringify errorData
                   | Inl _ \<Rightarrow> ''Loi khi xoa tu R2: '' @ show_nat st @ '' '' @ stText))]
                200, [DeleteObject objectKey])
         | Resolved (CfOk _) \<Rightarrow>
             (json_reply
                [(''success'', JBool True),
                 (''message'', JStr (''Da xoa bundle '' @ bundleId @ '' thanh cong tu R2 storage''))]
                200, [DeleteObject objectKey])))"

text \<open>\<open>rpc.get("/r2/objects")\<close>: one request, \<open>limit=1000\<close>, no prefix; \<open>truncated\<close> is
  declared in the route's interface and never read.\<close>

definition rpc_get_r2_objects ::
  "env \<Rightarrow> (list_query \<Rightarrow> (R2Result, json) cf_response fetched) \<Rightarrow> http_response \<times> cf_call list" where
  "rpc_get_r2_objects e cf_list =
     (if r2_config_missing e
      then (json_reply [(''success'', JBool False),
                        (''error'', JStr ''Thieu thong tin cau hinh Cloudflare'')] 400, [])
      else
        (let q = \<lparr>q_prefix = None, q_limit = Some 1000\<rparr> in
         case cf_list q of
           Rejected error \<Rightarrow> (catch_reply_unknown error, [ListObjects q])
         | Resolved (CfNotOk st stText txt js) \<Rightarrow>
             (case js of
                Inl error \<Rightarrow> (catch_reply_unknown error, [ListObjects q])
              | Inr errorData \<Rightarrow>
                  (json_reply [(''success'', JBool False),
                               (''error'', JStr (''Failed to fetch R2 objects: '' @ stText))] 500,
                   [ListObjects q]))
         | Resolved (CfOk (Inl error)) \<Rightarrow> (catch_reply_unknown error, [ListObjects q])
         | Resolved (CfOk (Inr data)) \<Rightarrow>
             (json_reply [(''success'', JBool True),
                          (''objects'', JArr (map object_json (objects data)))] 200,
              [ListObjects q])))"

text \<open>\<open>rpc.delete("/r2/object")\<close>. The error body is cast to
  \<open>{ success; errors: Array<{ message }> }\<close>: here the messages of \<open>errors\<close>, when the
  property is there.\<close>

fun join_with :: "string \<Rightarrow> string list \<Rightarrow> string" where
  "join_with sep [] = []"
| "join_with sep [x] = x"
| "join_with sep (x # y # ys) = x @ sep @ join_with sep (y # ys)"

definition rpc_delete_r2_object ::
  "env \<Rightarrow> (string \<Rightarrow> (unit, string list option) cf_response fetched) \<Rightarrow> obj fetched
     \<Rightarrow> http_response \<times> cf_call list" where
  "rpc_delete_r2_object e cf_delete request =
     (case request of
        Rejected error \<Rightarrow> (catch_reply_unknown error, [])
      | Resolved req_body \<Rightarrow>
          (let key = get_prop req_body ''key'' in
           if \<not> truthy key
           then (json_reply [(''success'', JBool False),
                             (''error'', JStr ''Key khong duoc cung cap'')] 400, [])
           else if r2_config_missing e
           then (json_reply [(''success'', JBool False),
                             (''error'', JStr ''Thieu thong tin cau hinh Cloudflare'')] 400, [])
           else
             (case cf_delete (template key) of
                Rejected error \<Rightarrow> (catch_reply_unknown error, [DeleteObject (template key)])
              | Resolved (CfNotOk st stText txt js) \<Rightarrow>
                  (json_reply
                     [(''success'', JBool False),
                      (''error'', JStr (case js of
                          Inr (Some (m # ms)) \<Rightarrow> join_with '', '' (m # ms)
                        | _ \<Rightarrow> ''Failed to delete R2 object: '' @ stText))]
                     500, [DeleteObject (template key)])
              | Resolved (CfOk _) \<Rightarrow>
                  (json_reply [(''success'', JBool True)] 200, [DeleteObject (template key)]))))"

text \<open>\<open>rpc.delete("/r2/objects")\<close>. The loop body pushes one result per key, whatever the
  request for that key did; \<open>delete_each\<close> is the \<open>for\<close> loop with its accumulators
  \<open>results\<close> and \<open>successCount\<close>, and the requests sent so far.\<close>

definition delete_one ::
  "(string \<Rightarrow> (unit, json) cf_response fetched) \<Rightarrow> (json \<Rightarrow> string) \<Rightarrow> json \<Rightarrow> json \<times> bool" where
  "delete_one cf_delete stringify key =
     (case cf_delete (js_string key) of
        Resolved (CfOk _) \<Rightarrow> (JObj [(''key'', key), (''success'', JBool True)], True)
      | Resolved (CfNotOk st stText txt js) \<Rightarrow>
          (JObj [(''key'', key), (''success'', JBool False),
                 (''error'', JStr (stringify (case js of
                     Inr errorData \<Rightarrow> errorData
                   | Inl _ \<Rightarrow> JObj [(''error'', JStr stText)])))], False)
      | Rejected error \<Rightarrow>
          (JObj [(''key'', key), (''success'', JBool False),
                 (''error'', JStr (thrown_text error))], False))"

fun delete_each ::
  "(string \<Rightarrow> (unit, json) cf_response fetched) \<Rightarrow> (json \<Rightarrow> string) \<Rightarrow> json list
     \<Rightarrow> json list \<times> nat \<times> cf_call list \<Rightarrow> json list \<times> nat \<times> cf_call list" where
  "delete_each cf_delete stringify [] acc = acc"
| "delete_each cf_delete stringify (key # keys) (results, successCount, calls) =
     delete_each cf_delete stringify keys
       (results @ [fst (delete_one cf_delete stringify key)],
        (if snd (delete_one cf_delete stringify key) then successCount + 1 else successCount),
        calls @ [DeleteObject (js_string key)])"

definition rpc_delete_r2_objects ::
  "env \<Rightarrow> (string \<Rightarrow> (unit, json) cf_response fetched) \<Rightarrow> (json \<Rightarrow> string) \<Rightarrow> json fetched
     \<Rightarrow> http_response \<times> cf_call list" where
  "rpc_delete_r2_objects e cf_delete stringify request =
     (case request of
        Rejected error \<Rightarrow> (catch_reply error, [])
      | Resolved (JArr (k # ks)) \<Rightarrow>
          (if r2_config_missing e
           then (json_reply [(''success'', JBool False),
                             (''error'', JStr ''Thieu cau hinh R2'')] 500, [])
           else
             (case delete_each cf_delete stringify (k # ks) ([], 0, []) of
                (results, successCount, calls) \<Rightarrow>
                  (json_reply
                     [(''success'', JBool (successCount > 0)),
                      (''totalObjects'', JNum (int (length (k # ks)))),
                      (''deletedObjects'', JNum (int successCount)),
                      (''message'', JStr (''Da xoa '' @ show_nat successCount @ ''/''
                           @ show_nat (length (k # ks)) @ '' tep tu R2 storage'')),
                      (''results'', JArr results)]
                     200, calls)))
      | Resolved _ \<Rightarrow>
          (json_reply [(''success'', JBool False),
                       (''error'', JStr ''Danh sach keys khong hop le hoac trong'')] 400, []))"

text \<open>\<open>rpc.post("/bundle-sizes")\<close>. The listing is read as \<open>data.result || []\<close>, a list
  of objects of which \<open>key\<close> and a numeric \<open>size\<close> may each be missing.\<close>

record any_object =
  any_key :: "string option"
  any_size :: "int option"

definition size_of_bundle :: "any_object list \<Rightarrow> json \<Rightarrow> json" where
  "size_of_bundle objs bundleId =
     (case find (\<lambda>x. case any_key x of
                        None \<Rightarrow> False
                      | Some k \<Rightarrow> k \<noteq> [] \<and> prefix (js_string bundleId @ ''/'') k) objs of
        None \<Rightarrow> JNum 0
      | Some matchingObject \<Rightarrow>
          (case any_size matchingObject of Some n \<Rightarrow> JNum n | None \<Rightarrow> JNum 0))"

definition rpc_bundle_sizes ::
  "env \<Rightarrow> (list_query \<Rightarrow> (any_object list option, json) cf_response fetched) \<Rightarrow> obj fetched
     \<Rightarrow> http_response \<times> cf_call list" where
  "rpc_bundle_sizes e cf_list request =
     (case request of
        Rejected error \<Rightarrow> (catch_reply_unknown error, [])
      | Resolved req_body \<Rightarrow>
          (case (if truthy (get_prop req_body ''bundleIds'')
                 then get_prop req_body ''bundleIds'' else Some (JArr [])) of
             Some (JArr bundleIds) \<Rightarrow>
               (if r2_config_missing e
                then (json_reply [(''success'', JBool False),
                                  (''error'', JStr ''Thieu thong tin cau hinh Cloudflare'')] 400, [])
                else
                  (let q = \<lparr>q_prefix = None, q_limit = Some 1000\<rparr> in
                   case cf_list q of
                     Rejected error \<Rightarrow> (catch_reply_unknown error, [ListObjects q])
                   | Resolved (CfNotOk st stText txt js) \<Rightarrow>
                       (json_reply [(''success'', JBool False),
                                    (''error'', JStr (''Failed to fetch R2 objects: '' @ stText))] 500,
                        [ListObjects q])
                   | Resolved (CfOk (Inl error)) \<Rightarrow> (catch_reply_unknown error, [ListObjects q])
                   | Resolved (CfOk (Inr data)) \<Rightarrow>
                       (let objs = (case data of Some xs \<Rightarrow> xs | None \<Rightarrow> []) in
                        (json_reply
                           [(''success'', JBool True),
                            (''fileSizes'', JObj (fold (\<lambda>bundleId fileSizes.
                                 AList.update (js_string bundleId) (size_of_bundle objs bundleId) fileSizes)
                               bundleIds []))]
                           200, [ListObjects q]))))
           | _ \<Rightarrow>
               (json_reply [(''success'', JBool False),
                            (''error'', JStr ''bundleIds phai la mot mang'')] 400, [])))"

text \<open>\<open>rpc.post("/bundles/:bundleId/delete-d1")\<close>. The statement sent is
  \<open>DELETE FROM [bundles] WHERE "id" = ?\<close> with the bundle id as its parameter.\<close>

definition d1_config_missing :: "env \<Rightarrow> bool" where
  "d1_config_missing e =
     (falsy_str (HOT_UPDATER_CLOUDFLARE_API_TOKEN e)
      \<or> falsy_str (HOT_UPDATER_CLOUDFLARE_ACCOUNT_ID e)
      \<or> falsy_str (HOT_UPDATER_CLOUDFLARE_D1_DATABASE_ID e))"

definition rpc_delete_d1 ::
  "env \<Rightarrow> (string \<Rightarrow> (json, json) cf_response fetched) \<Rightarrow> string \<Rightarrow> http_response \<times> cf_call list" where
  "rpc_delete_d1 e d1_query bundleId =
     (if d1_config_missing e
      then (json_reply [(''success'', JBool False),
                        (''error'', JStr ''Thieu thong tin cau hinh Cloudflare D1'')] 400, [])
      else
        (case d1_query bundleId of
           Rejected error \<Rightarrow> (catch_reply error, [D1DeleteBundle bundleId])
         | Resolved (CfNotOk st stText errorData js) \<Rightarrow>
             (json_reply [(''success'', JBool False),
                          (''error'', JStr (''Khong the xoa bundle tu D1: '' @ stText)),
                          (''details'', JStr errorData)] 500,
              [D1DeleteBundle bundleId])
         | Resolved (CfOk (Inl error)) \<Rightarrow> (catch_reply error, [D1DeleteBundle bundleId])
         | Resolved (CfOk (Inr d1Result)) \<Rightarrow>
             (json_reply [(''success'', JBool True),
                          (''message'', JStr ''Bundle da duoc xoa hoan toan khoi D1 database''),
                          (''d1Result'', d1Result)] 200,
              [D1DeleteBundle bundleId])))"

text \<open>
  \<open>rpc.post("/bundles/:bundleId/complete-delete")\<close>. The listing is cast to
  \<open>{ result?: { objects?: Array<{ key; size }> } }\<close>: \<open>None\<close> without \<open>result\<close>,
  \<open>Some None\<close> without \<open>objects\<close>. The route then sends a DELETE request to
  \<open>/rpc/r2/objects\<close> with the body \<open>{ keys: objectKeys }\<close>; \<open>loopback\<close> is that request,
  from its body to the JSON it resolves with.
\<close>

definition rpc_complete_delete ::
  "env \<Rightarrow> js_thrown + config \<Rightarrow> database
     \<Rightarrow> (list_query \<Rightarrow> (r2_object list option option, json) cf_response fetched)
     \<Rightarrow> (json \<Rightarrow> obj fetched) \<Rightarrow> string
     \<Rightarrow> http_response \<times> database \<times> cf_call list" where
  "rpc_complete_delete e prepared db cf_list loopback bundleId =
     (case prepared of
        Inl error \<Rightarrow> (catch_reply error, db, [])
      | Inr cfg \<Rightarrow>
      (case updateBundle db bundleId False of
        Inl error \<Rightarrow> (catch_reply error, db, [])
      | Inr db1 \<Rightarrow>
      (case commitBundle db1 of
        Inl error \<Rightarrow> (catch_reply error, db1, [])
      | Inr db2 \<Rightarrow>
          if r2_config_missing e
          then (json_reply
                  [(''success'', JBool True),
                   (''message'', JStr ''Bundle da bi vo hieu hoa trong database, nhung khong the xoa tu R2 do thieu cau hinh'')]
                  200, db2, [])
          else
            (let q = \<lparr>q_prefix = Some bundleId, q_limit = None\<rparr> in
             case cf_list q of
               Rejected error \<Rightarrow> (catch_reply error, db2, [ListObjects q])
             | Resolved (CfNotOk st stText txt js) \<Rightarrow>
                 (json_reply
                    [(''success'', JBool True),
                     (''message'', JStr (''Bundle da bi vo hieu hoa trong database, nhung khong the liet ke file trong R2: '' @ stText))]
                    200, db2, [ListObjects q])
             | Resolved (CfOk (Inl error)) \<Rightarrow> (catch_reply error, db2, [ListObjects q])
             | Resolved (CfOk (Inr data)) \<Rightarrow>
                 (let objs = (case data of Some (Some xs) \<Rightarrow> xs | _ \<Rightarrow> []) in
                  if objs = []
                  then (json_reply
                          [(''success'', JBool True),
                           (''message'', JStr ''Bundle da bi vo hieu hoa trong database, khong co file R2 can xoa'')]
                          200, db2, [ListObjects q])
                  else
                    (let objectKeys = map object_key objs in
                     case loopback (JObj [(''keys'', JArr (map JStr objectKeys))]) of
                       Rejected error \<Rightarrow> (catch_reply error, db2, [ListObjects q])
                     | Resolved deleteResult \<Rightarrow>
                         (json_reply
                            [(''success'', JBool True),
                             (''message'', JStr (''Bundle da bi vo hieu hoa trong database, ''
                                 @ template (get_prop deleteResult ''deletedObjects'') @ ''/''
                                 @ template (get_prop deleteResult ''totalObjects'')
                                 @ '' file da bi xoa tu R2'')),
                             (''r2Result'', JObj deleteResult)]
                            200, db2, [ListObjects q])))))))"

section \<open>The client: sizes and bulk operations\<close>

text \<open>
  What \<open>fetch\<close> resolves with on the client: \<open>response.ok\<close>, \<open>response.statusText\<close>
  and what \<open>response.json()\<close> gives. \<open>entries\<close> is \<open>Object.entries\<close>; \<open>js_and\<close>,
  \<open>js_or\<close> and \<open>opt_prop\<close> are \<open>&&\<close>, \<open>||\<close> and \<open>?.\<close> on values that may be
  \<open>undefined\<close>.
\<close>

record fetch_response =
  resp_ok :: bool
  resp_statusText :: string
  resp_json :: "js_thrown + obj"

fun entries :: "json \<Rightarrow> (string \<times> json) list" where
  "entries (JObj kvs) = kvs"
| "entries (JArr xs) = zip (map show_nat [0..<length xs]) xs"
| "entries (JStr t) = zip (map show_nat [0..<length t]) (map (\<lambda>c. JStr [c]) t)"
| "entries v = []"

definition js_and :: "json option \<Rightarrow> json option \<Rightarrow> json option" where
  "js_and a b = (if truthy a then b else a)"

definition js_or :: "json option \<Rightarrow> json option \<Rightarrow> json option" where
  "js_or a b = (if truthy a then a else b)"

fun opt_prop :: "obj option \<Rightarrow> string \<Rightarrow> json option" where
  "opt_prop None k = None"
| "opt_prop (Some data) k = get_prop data k"

text \<open>\<open>fetchFileSizesFromR2\<close>: the sizes the server sent, or \<open>{}\<close>.\<close>

definition fetchFileSizesFromR2 ::
  "(string list \<Rightarrow> fetch_response fetched) \<Rightarrow> string list \<Rightarrow> json" where
  "fetchFileSizesFromR2 post_bundle_sizes bundleIds =
     (case post_bundle_sizes bundleIds of
        Rejected error \<Rightarrow> JObj []
      | Resolved response \<Rightarrow>
          if \<not> resp_ok response then JObj []
          else
            (case resp_json response of
               Inl error \<Rightarrow> JObj []
             | Inr data \<Rightarrow>
                 (case get_prop data ''fileSizes'' of
                    Some v \<Rightarrow>
                      if truthy (get_prop data ''success'') \<and> truthy (Some v) then v
                      else JObj []
                  | None \<Rightarrow> JObj [])))"

text \<open>
  \<open>getFileSizes\<close>, with the module's \<open>fileSizeCache\<close> passed in and returned. The third
  component is the list of requests sent: none, or one with the ids the filter kept.
  \<open>!fileSizeCache[id]\<close> and \<open>size || 0\<close> test truthiness.
\<close>

definition or_zero :: "json option \<Rightarrow> json" where
  "or_zero v = (case v of Some x \<Rightarrow> if truthy (Some x) then x else JNum 0 | None \<Rightarrow> JNum 0)"

definition getFileSizes ::
  "(string list \<Rightarrow> fetch_response fetched) \<Rightarrow> obj \<Rightarrow> string list
     \<Rightarrow> obj \<times> obj \<times> string list list" where
  "getFileSizes post_bundle_sizes fileSizeCache bundleIds =
     (let uncachedIds = filter (\<lambda>i. \<not> truthy (get_prop fileSizeCache i)) bundleIds;
          cache' =
            (if uncachedIds \<noteq> []
             then fold (\<lambda>(i, sz) c. AList.update i (or_zero (Some sz)) c)
                    (entries (fetchFileSizesFromR2 post_bundle_sizes uncachedIds)) fileSizeCache
             else fileSizeCache);
          fileSizes = fold (\<lambda>i acc. AList.update i (or_zero (get_prop cache' i)) acc) bundleIds []
      in (fileSizes, cache', if uncachedIds \<noteq> [] then [uncachedIds] else []))"

text \<open>\<open>bulkDeleteFromR2\<close>: the body of its request is the array of keys itself.\<close>

definition bulkDeleteFromR2 :: "(json \<Rightarrow> fetch_response fetched) \<Rightarrow> string list \<Rightarrow> obj" where
  "bulkDeleteFromR2 delete_r2_objects keys =
     (if keys = [] then [(''success'', JBool False), (''error'', JStr ''Danh sach keys trong'')]
      else
        (case delete_r2_objects (JArr (map JStr keys)) of
           Rejected error \<Rightarrow> [(''success'', JBool False), (''error'', JStr (thrown_text error))]
         | Resolved response \<Rightarrow>
             if \<not> resp_ok response
             then [(''success'', JBool False),
                   (''error'', JStr (''Loi khi goi API: '' @ resp_statusText response))]
             else
               (case resp_json response of
                  Inl error \<Rightarrow> [(''success'', JBool False), (''error'', JStr (thrown_text error))]
                | Inr data \<Rightarrow> data)))"

text \<open>\<open>deleteD1Bundle\<close>: two requests, each resolving with its JSON body or rejecting.\<close>

record DeleteBundleResponse =
  dbr_success :: "json option"
  dbr_message :: "string option"
  dbr_error :: "string option"
  d1Result :: "obj option"
  r2Result :: "obj option"

definition delete_failed :: "js_thrown \<Rightarrow> DeleteBundleResponse" where
  "delete_failed error =
     \<lparr>dbr_success = Some (JBool False), dbr_message = None,
      dbr_error = Some (thrown_text error), d1Result = None, r2Result = None\<rparr>"

definition deleteD1Bundle ::
  "(string \<Rightarrow> obj fetched) \<Rightarrow> (string \<Rightarrow> obj fetched) \<Rightarrow> string \<Rightarrow> DeleteBundleResponse" where
  "deleteD1Bundle post_delete_d1 post_r2_delete bundleId =
     (case post_delete_d1 bundleId of
        Rejected error \<Rightarrow> delete_failed error
      | Resolved d1 \<Rightarrow>
          (case post_r2_delete bundleId of
             Rejected error \<Rightarrow> delete_failed error
           | Resolved r2 \<Rightarrow>
               \<lparr>dbr_success = js_and (get_prop d1 ''success'') (get_prop r2 ''success''),
                dbr_message = Some (''Bundle da duoc xoa tu D1''
                    @ (if truthy (get_prop r2 ''success'') then '' va R2'' else [])),
                dbr_error = None, d1Result = Some d1, r2Result = Some r2\<rparr>))"

text \<open>\<open>bulkDeleteBundles\<close>: \<open>bulk_loop\<close> is its \<open>for\<close> loop over \<open>results\<close> and
  \<open>overallResult\<close>.\<close>

record overallResult =
  overall_success :: bool
  d1Success :: nat
  r2Success :: nat
  overall_total :: nat

record detail =
  detail_bundleId :: string
  detail_success :: "json option"
  detail_d1Success :: "json option"
  detail_r2Success :: "json option"

fun bulk_loop ::
  "(string \<Rightarrow> DeleteBundleResponse) \<Rightarrow> string list \<Rightarrow> detail list \<times> overallResult
     \<Rightarrow> detail list \<times> overallResult" where
  "bulk_loop del [] acc = acc"
| "bulk_loop del (bundleId # rest) (results, ov) =
     (let result = del bundleId;
          d1ok = opt_prop (d1Result result) ''success'';
          r2ok = js_or (opt_prop (r2Result result) ''success'')
                       (opt_prop (r2Result result) ''partialSuccess'')
      in bulk_loop del rest
           (results @ [\<lparr>detail_bundleId = bundleId, detail_success = dbr_success result,
                         detail_d1Success = d1ok, detail_r2Success = r2ok\<rparr>],
            \<lparr>overall_success = (if \<not> truthy (dbr_success result) then False else overall_success ov),
             d1Success = (if truthy d1ok then d1Success ov + 1 else d1Success ov),
             r2Success = (if truthy r2ok then r2Success ov + 1 else r2Success ov),
             overall_total = overall_total ov\<rparr>))"

record bulk_response =
  bulk_success :: bool
  bulk_message :: "string option"
  bulk_error :: "string option"
  details :: "detail list option"

definition bulk_run ::
  "(string \<Rightarrow> obj fetched) \<Rightarrow> (string \<Rightarrow> obj fetched) \<Rightarrow> string list \<Rightarrow> detail list \<times> overallResult" where
  "bulk_run post_delete_d1 post_r2_delete bundleIds =
     bulk_loop (deleteD1Bundle post_delete_d1 post_r2_delete) bundleIds
       ([], \<lparr>overall_success = True, d1Success = 0, r2Success = 0,
             overall_total = length bundleIds\<rparr>)"

definition bulkDeleteBundles ::
  "(string \<Rightarrow> obj fetched) \<Rightarrow> (string \<Rightarrow> obj fetched) \<Rightarrow> string list \<Rightarrow> bulk_response" where
  "bulkDeleteBundles post_delete_d1 post_r2_delete bundleIds =
     (if bundleIds = []
      then \<lparr>bulk_success = False, bulk_message = None,
            bulk_error = Some ''Khong co bundle nao duoc chon de xoa'', details = None\<rparr>
      else
        (case bulk_run post_delete_d1 post_r2_delete bundleIds of
           (results, ov) \<Rightarrow>
             \<lparr>bulk_success = (overall_success ov \<or> d1Success ov > 0),
              bulk_message = Some (''Da xoa '' @ show_nat (d1Success ov) @ ''/''
                  @ show_nat (length bundleIds) @ '' bundles tu D1, Da xoa ''
                  @ show_nat (r2Success ov) @ ''/'' @ show_nat (length bundleIds)
                  @ '' bundles tu R2''),
              bulk_error = None, details = Some results\<rparr>))"

text \<open>What \<open>bulkDeleteBundles\<close> counts per bundle: the tests of its two \<open>if\<close>s.\<close>

definition d1_ok :: "(string \<Rightarrow> DeleteBundleResponse) \<Rightarrow> string \<Rightarrow> bool" where
  "d1_ok del i = truthy (opt_prop (d1Result (del i)) ''success'')"

definition r2_ok :: "(string \<Rightarrow> DeleteBundleResponse) \<Rightarrow> string \<Rightarrow> bool" where
  "r2_ok del i = truthy (js_or (opt_prop (r2Result (del i)) ''success'')
                                (opt_prop (r2Result (del i)) ''partialSuccess''))"

section \<open>The console: deleting the selected bundles\<close>

text \<open>
  \<open>handleBulkDelete\<close> of the bundle table (\<open>routes/_components/data-table.tsx\<close>): the
  bulk delete the console offers. It runs \<open>bulkDeleteBundles\<close> over the selected ids,
  then sends one bulk request for the keys \<open>{id}/bundle.zip\<close> with \<open>bulkDeleteFromR2\<close>,
  and shows a success when either result says success. The answer to the confirmation
  dialog is a parameter; the result is the toast shown (none when the dialog is
  declined) and the selection afterwards. The busy flag and the reload of the page two
  seconds after a success are left out. Neither call throws, so the handler's \<open>catch\<close>
  is never entered.
\<close>

datatype toast = ToastSuccess string | ToastError json

definition handleBulkDelete ::
  "(string \<Rightarrow> obj fetched) \<Rightarrow> (string \<Rightarrow> obj fetched) \<Rightarrow> (json \<Rightarrow> fetch_response fetched)
     \<Rightarrow> bool \<Rightarrow> string list \<Rightarrow> toast option \<times> string list" where
  "handleBulkDelete post_delete_d1 post_r2_delete delete_r2_objects confirmed selected =
     (if selected = []
      then (Some (ToastError (JStr ''Khong co bundle nao duoc chon de xoa'')), selected)
      else if \<not> confirmed then (None, selected)
      else
        (let r1Result = bulkDeleteBundles post_delete_d1 post_r2_delete selected;
             bundleKeys = map (\<lambda>i. i @ ''/bundle.zip'') selected;
             r2Result = bulkDeleteFromR2 delete_r2_objects bundleKeys
         in if bulk_success r1Result \<or> truthy (get_prop r2Result ''success'')
            then (Some (ToastSuccess (''Da xoa '' @ show_nat (length selected)
                                       @ '' bundles thanh cong'')), [])
            else (Some (ToastError
                    (case bulk_error r1Result of
                       Some (c # cs) \<Rightarrow> JStr (c # cs)
                     | _ \<Rightarrow>
                         (case get_prop r2Result ''error'' of
                            Some v \<Rightarrow> if truthy (Some v) then v
                                      else JStr ''Co loi xay ra khi xoa cac bundles''
                          | None \<Rightarrow> JStr ''Co loi xay ra khi xoa cac bundles''))),
                  selected)))"

text \<open>
  The counts of the bulk delete. \<open>d1_count\<close> and \<open>r2_count\<close> are the numbers that
  \<open>bulkDeleteBundles\<close> writes into its message, the bundles that pass its two tests; a
  bundle whose requests do not both resolve passes neither. \<open>deletedObjects_of\<close> reads
  the count a bulk result carries (0 when it carries none). \<open>d1_deleted\<close> and
  \<open>object_deleted\<close> say what the backends did: the D1 statement resolved with a
  readable ok response (and D1 is configured), the delete of an object resolved with an
  ok response.
\<close>

definition object_deleted :: "(string \<Rightarrow> (unit, json) cf_response fetched) \<Rightarrow> string \<Rightarrow> bool" where
  "object_deleted cf_delete k = (case cf_delete k of Resolved (CfOk x) \<Rightarrow> True | _ \<Rightarrow> False)"

definition d1_deleted :: "env \<Rightarrow> (string \<Rightarrow> (json, json) cf_response fetched) \<Rightarrow> string \<Rightarrow> bool" where
  "d1_deleted e d1_query i =
     (\<not> d1_config_missing e
      \<and> (case d1_query i of Resolved (CfOk (Inr x)) \<Rightarrow> True | _ \<Rightarrow> False))"

definition d1_count :: "(string \<Rightarrow> obj fetched) \<Rightarrow> (string \<Rightarrow> obj fetched) \<Rightarrow> string list \<Rightarrow> nat" where
  "d1_count p1 p2 ids = length (filter (d1_ok (deleteD1Bundle p1 p2)) ids)"

definition r2_count :: "(string \<Rightarrow> obj fetched) \<Rightarrow> (string \<Rightarrow> obj fetched) \<Rightarrow> string list \<Rightarrow> nat" where
  "r2_count p1 p2 ids = length (filter (r2_ok (deleteD1Bundle p1 p2)) ids)"

definition deletedObjects_of :: "obj \<Rightarrow> nat" where
  "deletedObjects_of r = (case get_prop r ''deletedObjects'' of Some (JNum n) \<Rightarrow> nat n | _ \<Rightarrow> 0)"

definition deleted_count :: "(string \<Rightarrow> (unit, json) cf_response fetched) \<Rightarrow> string list \<Rightarrow> nat" where
  "deleted_count cf_delete ids =
     length (filter (\<lambda>i. object_deleted cf_delete (i @ ''/bundle.zip'')) ids)"

section \<open>Environments to run the routes in\<close>

text \<open>
  How the client sees a response of the server (\<open>response.ok\<close> is a status from 200 to
  299), and a storage backend that answers a listing with one page: the objects that
  match the prefix, cut at the smaller of the request's limit and the backend's own
  page size, with the truncation marker set when more are left. \<open>stored_under\<close> is the
  objects a bucket holds under \<open>{id}/\<close>; \<open>listed\<close> reads the objects a response carries.
\<close>

definition reason_phrase :: "nat \<Rightarrow> string" where
  "reason_phrase code =
     (if code = 200 then ''OK'' else if code = 400 then ''Bad Request''
      else if code = 500 then ''Internal Server Error'' else [])"

definition of_http :: "http_response \<Rightarrow> fetch_response" where
  "of_http r = \<lparr>resp_ok = (200 \<le> status r \<and> status r < 300),
               resp_statusText = reason_phrase (status r), resp_json = Inr (body r)\<rparr>"

definition first_page :: "r2_object list \<Rightarrow> nat \<Rightarrow> list_query \<Rightarrow> R2Result" where
  "first_page bucket page_size q =
     (let matching = filter (\<lambda>x. case q_prefix q of None \<Rightarrow> True
                                   | Some p \<Rightarrow> prefix p (object_key x)) bucket;
          n = (case q_limit q of None \<Rightarrow> page_size | Some l \<Rightarrow> min l page_size)
      in \<lparr>objects = take n matching, truncated = (n < length matching)\<rparr>)"

definition paged_listing ::
  "r2_object list \<Rightarrow> nat \<Rightarrow> list_query \<Rightarrow> (R2Result, json) cf_response fetched" where
  "paged_listing bucket page_size q = Resolved (CfOk (Inr (first_page bucket page_size q)))"

definition stored_under :: "r2_object list \<Rightarrow> string \<Rightarrow> r2_object list" where
  "stored_under bucket bundleId = filter (\<lambda>x. prefix (bundleId @ ''/'') (object_key x)) bucket"

definition listed :: "http_response \<Rightarrow> json list" where
  "listed r = (case get_prop (body r) ''objects'' of Some (JArr xs) \<Rightarrow> xs | _ \<Rightarrow> [])"

definition success_flag :: "json \<Rightarrow> bool" where
  "success_flag r = (case r of JObj kvs \<Rightarrow> get_prop kvs ''success'' = Some (JBool True) | _ \<Rightarrow> False)"

definition env_ok :: env where
  "env_ok = \<lparr>HOT_UPDATER_CLOUDFLARE_API_TOKEN = Some ''token'',
             HOT_UPDATER_CLOUDFLARE_ACCOUNT_ID = Some ''account'',
             HOT_UPDATER_CLOUDFLARE_R2_BUCKET_NAME = Some ''bucket'',
             HOT_UPDATER_CLOUDFLARE_D1_DATABASE_ID = Some ''database''\<rparr>"

definition env_no_bucket :: env where
  "env_no_bucket = env_ok\<lparr>HOT_UPDATER_CLOUDFLARE_R2_BUCKET_NAME := None\<rparr>"

definition bundle_of :: "string \<Rightarrow> Bundle" where
  "bundle_of i = \<lparr>bundle_id = i, channel = ''production'', bundle_platform = Ios,
     targetAppVersion = ''1.0.0'', bundle_message = ''release'', enabled = True,
     shouldForceUpdate = False\<rparr>"

definition db_of :: "string \<Rightarrow> database" where
  "db_of i = \<lparr>rows = [i \<mapsto> bundle_of i], staged = [], update_fault = None, commit_fault = None\<rparr>"

definition stored_object :: "string \<Rightarrow> nat \<Rightarrow> r2_object" where
  "stored_object k n = \<lparr>object_key = k, object_size = n, uploaded = ''2025-01-01''\<rparr>"

definition bucket_b2 :: "r2_object list" where
  "bucket_b2 = [stored_object ''b2/bundle.zip'' 1000, stored_object ''b2/index.js'' 20,
                stored_object ''b2/assets.json'' 3]"

text \<open>Whether a listed entry has a key under \<open>{id}/\<close>, and a bucket with the objects of
  two bundles.\<close>

definition key_under :: "string \<Rightarrow> json \<Rightarrow> bool" where
  "key_under bundleId j =
     (case j of
        JObj kvs \<Rightarrow> (case get_prop kvs ''key'' of
                       Some (JStr k) \<Rightarrow> prefix (bundleId @ ''/'') k
                     | _ \<Rightarrow> False)
      | _ \<Rightarrow> False)"

definition bucket_two :: "r2_object list" where
  "bucket_two = stored_object ''b1/bundle.zip'' 1000 # bucket_b2"

text \<open>The server's own DELETE route for \<open>/rpc/r2/objects\<close>, as a request from the
  server (its JSON) and from the client (its response).\<close>

definition loopback_route ::
  "env \<Rightarrow> (string \<Rightarrow> (unit, json) cf_response fetched) \<Rightarrow> (json \<Rightarrow> string) \<Rightarrow> json \<Rightarrow> obj fetched" where
  "loopback_route e cf_delete stringify req_body =
     Resolved (body (fst (rpc_delete_r2_objects e cf_delete stringify (Resolved req_body))))"

definition client_route ::
  "env \<Rightarrow> (string \<Rightarrow> (unit, json) cf_response fetched) \<Rightarrow> (json \<Rightarrow> string) \<Rightarrow> json
     \<Rightarrow> fetch_response fetched" where
  "client_route e cf_delete stringify req_body =
     Resolved (of_http (fst (rpc_delete_r2_objects e cf_delete stringify (Resolved req_body))))"

section \<open>Concrete inputs\<close>

definition r2cfg :: R2StorageConfig where
  "r2cfg = \<lparr>cloudflareApiToken = ''token'', accountId = ''account'', bucketName = ''bucket''\<rparr>"

definition remote_empty :: r2_remote where
  "remote_empty = \<lparr>stored = [], outage = None\<rparr>"

definition remote_b1 :: r2_remote where
  "remote_b1 = \<lparr>stored = [''bucket/b1''], outage = None\<rparr>"

definition remote_down :: r2_remote where
  "remote_down = \<lparr>stored = [''bucket/b1''], outage = Some (JsError ''Authentication error'')\<rparr>"

definition plugin_ok :: "string \<Rightarrow> js_thrown + string" where
  "plugin_ok i = Inr i"

definition plugin_not_found :: "string \<Rightarrow> js_thrown + string" where
  "plugin_not_found i = Inl (JsError ''Bundle Not Found'')"

definition plugin_unreachable :: "string \<Rightarrow> js_thrown + string" where
  "plugin_unreachable i = Inl (JsString ''connect ETIMEDOUT'')"

definition plugin_empty_error :: "string \<Rightarrow> js_thrown + string" where
  "plugin_empty_error i = Inl (JsError [])"

definition plugin_r2_down :: "string \<Rightarrow> js_thrown + string" where
  "plugin_r2_down i = fst (r2Storage_deleteBundle wrangler_remote r2cfg remote_down i)"

definition db_commit_fails :: database where
  "db_commit_fails = (db_of ''b1'')\<lparr>commit_fault := Some (JsError ''D1 unavailable'')\<rparr>"

definition db_update_fails :: database where
  "db_update_fails = (db_of ''b1'')\<lparr>update_fault := Some (JsError ''D1 unavailable'')\<rparr>"

definition api_error_only :: "string \<Rightarrow> obj fetched" where
  "api_error_only i = Resolved [(''error'', JStr ''Database plugin initialization failed'')]"

definition api_db_failed :: "string \<Rightarrow> obj fetched" where
  "api_db_failed i = served (rpc_delete_bundle (Inr \<lparr>storage = None\<rparr>) db_commit_fails) i"

definition api_offline :: "string \<Rightarrow> obj fetched" where
  "api_offline i = Rejected (JsError ''Failed to fetch'')"

definition three_keys :: "string list" where
  "three_keys = [''b1/bundle.zip'', ''b2/bundle.zip'', ''b3/bundle.zip'']"

definition cf_all_ok :: "string \<Rightarrow> (unit, json) cf_response fetched" where
  "cf_all_ok k = Resolved (CfOk (Inr ()))"

definition cf_b2_rejects :: "string \<Rightarrow> (unit, json) cf_response fetched" where
  "cf_b2_rejects k =
     (if k = ''b2/bundle.zip'' then Rejected (JsError ''socket hang up'')
      else Resolved (CfOk (Inr ())))"

definition cf_b2_forbidden :: "string \<Rightarrow> (unit, json) cf_response fetched" where
  "cf_b2_forbidden k =
     (if k = ''b2/bundle.zip''
      then Resolved (CfNotOk 403 ''Forbidden'' ''Forbidden'' (Inl (JsError ''Unexpected token F in JSON'')))
      else Resolved (CfOk (Inr ())))"

definition d1_all_ok :: "string \<Rightarrow> (json, json) cf_response fetched" where
  "d1_all_ok i = Resolved (CfOk (Inr (JObj [(''success'', JBool True)])))"

definition env_no_d1 :: env where
  "env_no_d1 = env_ok\<lparr>HOT_UPDATER_CLOUDFLARE_D1_DATABASE_ID := None\<rparr>"

definition post_d1_ok :: "string \<Rightarrow> obj fetched" where
  "post_d1_ok i = served (rpc_delete_d1 env_ok d1_all_ok) i"

definition post_r2_b2_forbidden :: "string \<Rightarrow> obj fetched" where
  "post_r2_b2_forbidden i = served (rpc_r2_delete env_ok cf_b2_forbidden js_string) i"

definition post_d1_unconfigured :: "string \<Rightarrow> obj fetched" where
  "post_d1_unconfigured i = served (rpc_delete_d1 env_no_d1 d1_all_ok) i"

definition post_r2_ok :: "string \<Rightarrow> obj fetched" where
  "post_r2_ok i = served (rpc_r2_delete env_no_d1 cf_all_ok js_string) i"

text \<open>Backends for the other listings: the objects under a prefix as the complete-delete
  route reads them, and a listing as the bundle-sizes route reads it.\<close>

definition prefix_listing ::
  "r2_object list \<Rightarrow> list_query \<Rightarrow> (r2_object list option option, json) cf_response fetched" where
  "prefix_listing bucket q = Resolved (CfOk (Inr (Some (Some (objects (first_page bucket 1000 q))))))"

definition sizes_listing ::
  "any_object list \<Rightarrow> list_query \<Rightarrow> (any_object list option, json) cf_response fetched" where
  "sizes_listing objs q = Resolved (CfOk (Inr (Some objs)))"

definition cfo_all_ok :: "string \<Rightarrow> (unit, string list option) cf_response fetched" where
  "cfo_all_ok k = Resolved (CfOk (Inr ()))"

definition bucket_b1_sizes :: "any_object list" where
  "bucket_b1_sizes = [\<lparr>any_key = Some ''b1/bundle.zip'', any_size = Some 1000\<rparr>]"

text \<open>The client's request for sizes, answered by the bundle-sizes route over a bucket
  that holds \<open>b1/bundle.zip\<close> (1000 bytes) only.\<close>

definition post_sizes_b1 :: "string list \<Rightarrow> fetch_response fetched" where
  "post_sizes_b1 ids =
     Resolved (of_http (fst (rpc_bundle_sizes env_ok (sizes_listing bucket_b1_sizes)
        (Resolved [(''bundleIds'', JArr (map JStr ids))]))))"

definition b2_keys :: "string list" where
  "b2_keys = [''b2/bundle.zip'', ''b2/index.js'', ''b2/assets.json'']"

text \<open>The loopback request when the relative URL cannot be fetched at all.\<close>

definition loopback_unreachable :: "json \<Rightarrow> obj fetched" where
  "loopback_unreachable req_body = Rejected (JsError ''Only absolute URLs are supported'')"

section \<open>Helper facts\<close>

lemma rpc_delete_bundle_update_fails:
  "updateBundle db bundleId False = Inl e \<Longrightarrow>
   rpc_delete_bundle (Inr cfg) db bundleId = (db_error_reply e, db)"
  by (simp add: rpc_delete_bundle_def)

lemma rpc_delete_bundle_commit_fails:
  "updateBundle db bundleId False = Inr db1 \<Longrightarrow> commitBundle db1 = Inl e \<Longrightarrow>
   rpc_delete_bundle (Inr cfg) db bundleId = (db_error_reply e, db1)"
  by (simp add: rpc_delete_bundle_def)

lemma updateBundle_rows: "updateBundle db bundleId en = Inr db1 \<Longrightarrow> rows db1 = rows db"
  by (auto simp: updateBundle_def split: option.splits)

lemma get_prop_spread:
  "get_prop (spread base data) k =
     (case get_prop data k of Some v \<Rightarrow> Some v | None \<Rightarrow> get_prop base k)"
  by (simp add: get_prop_def spread_def merge_conv' map_add_def split: option.splits)

lemma r2Storage_deleteBundle_failure:
  assumes "wrangler s (delete_command rcfg bundleId) = (Some e, s')"
      and "e \<noteq> JsError ''Bundle Not Found''"
  shows "\<exists>m. m \<noteq> [] \<and> m \<noteq> ''Bundle Not Found''
            \<and> r2Storage_deleteBundle wrangler rcfg s bundleId = (Inl (JsError m), s')"
proof (cases e)
  case (JsError m)
  with assms have ne: "m \<noteq> ''Bundle Not Found''" by simp
  show ?thesis
  proof (cases "js_includes m ''wrangler: command not found''
                 \<or> js_includes m ''Command failed with exit code 127''")
    case True
    then have "r2Storage_deleteBundle wrangler rcfg s bundleId
       = (Inl (JsError ''Wrangler CLI khong duoc tim thay. Vui long cai dat bang lenh: npm install -g wrangler''), s')"
      using assms(1) JsError ne unfolding r2Storage_deleteBundle_def by simp
    then show ?thesis by simp
  next
    case False
    then have "r2Storage_deleteBundle wrangler rcfg s bundleId
       = (Inl (JsError (''Failed to delete bundle '' @ bundleId @ '' from R2: '' @ m)), s')"
      using assms(1) JsError ne unfolding r2Storage_deleteBundle_def by simp
    then show ?thesis by simp
  qed
next
  case (JsString t)
  then have "r2Storage_deleteBundle wrangler rcfg s bundleId
       = (Inl (JsError (''Failed to delete bundle '' @ bundleId @ '' from R2: '' @ t)), s')"
    using assms(1) unfolding r2Storage_deleteBundle_def by simp
  then show ?thesis by simp
qed

lemma wrangler_remote_twice:
  assumes "outage remote = None"
  shows "case r2Storage_deleteBundle wrangler_remote rcfg remote bundleId of
           (r1, remote1) \<Rightarrow>
             (case r2Storage_deleteBundle wrangler_remote rcfg remote1 bundleId of
                (r2, remote2) \<Rightarrow> r1 = Inr bundleId \<and> r2 = Inr bundleId)"
  using assms
  by (simp add: r2Storage_deleteBundle_def wrangler_remote_def delete_command_def)

lemma rpc_delete_bundle_partial:
  assumes "storage_branch cfg bundleId = Some (c # cs)"
      and "update_fault db = None" and "commit_fault db = None"
  shows "fst (rpc_delete_bundle (Inr cfg) db bundleId)
           = json_reply
               [(''success'', JBool True), (''partialSuccess'', JBool True),
                (''storageError'', JStr (c # cs)),
                (''message'', JStr ''Bundle da bi xoa khoi database nhung khong the xoa file tu storage'')]
               200"
  using assms
  by (simp add: rpc_delete_bundle_def updateBundle_def commitBundle_def)

lemma storage_branch_r2Storage:
  assumes w: "wrangler s (delete_command rcfg bundleId) = (Some e, s')"
      and ne: "e \<noteq> JsError ''Bundle Not Found''"
      and st: "storage cfg = Some (\<lambda>i. fst (r2Storage_deleteBundle wrangler rcfg s i))"
  shows "\<exists>c cs. storage_branch cfg bundleId = Some (c # cs)"
proof -
  from r2Storage_deleteBundle_failure [of wrangler s rcfg bundleId e s', OF w ne] obtain m where
    m1: "m \<noteq> []" and m2: "m \<noteq> ''Bundle Not Found''"
    and m3: "r2Storage_deleteBundle wrangler rcfg s bundleId = (Inl (JsError m), s')"
    by (elim exE conjE)
  have "storage_branch cfg bundleId = Some m"
    unfolding storage_branch_def using st m2 m3 by simp
  moreover from m1 obtain c cs where "m = c # cs" by (cases m) simp_all
  ultimately show ?thesis by simp
qed

lemma delete_each_eq:
  "delete_each cf str keys (results, n, calls) =
     (results @ map (\<lambda>k. fst (delete_one cf str k)) keys,
      n + length (filter (\<lambda>k. snd (delete_one cf str k)) keys),
      calls @ map (\<lambda>k. DeleteObject (js_string k)) keys)"
  by (induction keys arbitrary: results n calls) simp_all

lemma success_flag_delete_one:
  "success_flag (fst (delete_one cf str k)) = snd (delete_one cf str k)"
  by (simp add: delete_one_def success_flag_def get_prop_def
        split: fetched.splits cf_response.splits)

lemma delete_one_ok_iff:
  "snd (delete_one cf str k) \<longleftrightarrow> (\<exists>x. cf (js_string k) = Resolved (CfOk x))"
  by (simp add: delete_one_def split: fetched.splits cf_response.splits)

lemma count_success_flags:
  "length (filter success_flag (map (\<lambda>k. fst (delete_one cf str k)) keys))
     = length (filter (\<lambda>k. snd (delete_one cf str k)) keys)"
  by (simp add: filter_map o_def success_flag_delete_one)

lemma rpc_delete_r2_objects_run:
  assumes "\<not> r2_config_missing e" and "keys \<noteq> []"
  shows "rpc_delete_r2_objects e cf str (Resolved (JArr keys)) =
     (json_reply
        [(''success'', JBool (0 < length (filter (\<lambda>k. snd (delete_one cf str k)) keys))),
         (''totalObjects'', JNum (int (length keys))),
         (''deletedObjects'', JNum (int (length (filter (\<lambda>k. snd (delete_one cf str k)) keys)))),
         (''message'', JStr (''Da xoa '' @ show_nat (length (filter (\<lambda>k. snd (delete_one cf str k)) keys))
              @ ''/'' @ show_nat (length keys) @ '' tep tu R2 storage'')),
         (''results'', JArr (map (\<lambda>k. fst (delete_one cf str k)) keys))]
        200,
      map (\<lambda>k. DeleteObject (js_string k)) keys)"
proof -
  from assms(2) obtain k ks where keys: "keys = k # ks" by (cases keys) simp_all
  have loop: "delete_each cf str (k # ks) ([], 0, []) =
     (map (\<lambda>k. fst (delete_one cf str k)) (k # ks),
      length (filter (\<lambda>k. snd (delete_one cf str k)) (k # ks)),
      map (\<lambda>k. DeleteObject (js_string k)) (k # ks))"
    using delete_each_eq [of cf str "k # ks" "[]" 0 "[]"] by simp
  show ?thesis
    unfolding keys rpc_delete_r2_objects_def using assms(1)
    by (simp only: fetched.case json.case list.case if_False loop prod.case)
qed

lemma bulk_loop_counts:
  "snd (bulk_loop del ids (rs, ov)) =
     \<lparr>overall_success = (overall_success ov \<and> (\<forall>i \<in> set ids. truthy (dbr_success (del i)))),
      d1Success = d1Success ov + length (filter (d1_ok del) ids),
      r2Success = r2Success ov + length (filter (r2_ok del) ids),
      overall_total = overall_total ov\<rparr>"
proof (induction ids arbitrary: rs ov)
  case Nil
  then show ?case by simp
next
  case (Cons i ids)
  show ?case
    by (simp add: Cons.IH Let_def d1_ok_def r2_ok_def)
qed

lemma bulk_loop_details:
  "length (fst (bulk_loop del ids (rs, ov))) = length rs + length ids
   \<and> map detail_bundleId (fst (bulk_loop del ids (rs, ov))) = map detail_bundleId rs @ ids"
  by (induction ids arbitrary: rs ov) (simp_all add: Let_def)

lemma deleteD1Bundle_success_needs_d1:
  "truthy (dbr_success (deleteD1Bundle p1 p2 i)) \<Longrightarrow> d1_ok (deleteD1Bundle p1 p2) i"
  by (auto simp: deleteD1Bundle_def delete_failed_def d1_ok_def js_and_def
        split: fetched.splits if_splits)

lemma bulk_success_iff:
  assumes "bundleIds \<noteq> []"
  shows "bulk_success (bulkDeleteBundles p1 p2 bundleIds)
           \<longleftrightarrow> 0 < d1Success (snd (bulk_run p1 p2 bundleIds))"
proof -
  let ?del = "deleteD1Bundle p1 p2"
  have counts: "snd (bulk_run p1 p2 bundleIds) =
     \<lparr>overall_success = (\<forall>i \<in> set bundleIds. truthy (dbr_success (?del i))),
      d1Success = length (filter (d1_ok ?del) bundleIds),
      r2Success = length (filter (r2_ok ?del) bundleIds),
      overall_total = length bundleIds\<rparr>"
    by (simp add: bulk_run_def bulk_loop_counts)
  have all: "(\<forall>i \<in> set bundleIds. truthy (dbr_success (?del i)))
      \<Longrightarrow> 0 < length (filter (d1_ok ?del) bundleIds)"
  proof -
    assume a: "\<forall>i \<in> set bundleIds. truthy (dbr_success (?del i))"
    from assms obtain i rest where "bundleIds = i # rest" by (cases bundleIds) simp_all
    with a have "d1_ok ?del i" by (simp add: deleteD1Bundle_success_needs_d1)
    with \<open>bundleIds = i # rest\<close> show ?thesis by simp
  qed
  have "bulk_success (bulkDeleteBundles p1 p2 bundleIds)
      = (overall_success (snd (bulk_run p1 p2 bundleIds))
         \<or> 0 < d1Success (snd (bulk_run p1 p2 bundleIds)))"
    using assms by (simp add: bulkDeleteBundles_def split: prod.splits)
  then show ?thesis
    using all by (auto simp: counts)
qed

lemma rpc_get_r2_objects_calls:
  "\<not> r2_config_missing e \<Longrightarrow>
   snd (rpc_get_r2_objects e cf) = [ListObjects \<lparr>q_prefix = None, q_limit = Some 1000\<rparr>]"
  by (simp add: rpc_get_r2_objects_def Let_def
        split: fetched.splits cf_response.splits sum.splits)

lemma rpc_get_r2_objects_ok:
  "\<not> r2_config_missing e \<Longrightarrow>
   cf \<lparr>q_prefix = None, q_limit = Some 1000\<rparr> = Resolved (CfOk (Inr data)) \<Longrightarrow>
   fst (rpc_get_r2_objects e cf)
     = json_reply [(''success'', JBool True),
                   (''objects'', JArr (map object_json (objects data)))] 200"
  by (simp add: rpc_get_r2_objects_def Let_def)

lemma listed_ok:
  "listed (json_reply [(''success'', JBool True), (''objects'', JArr xs)] 200) = xs"
  by (simp add: listed_def json_reply_def get_prop_def)

lemma first_page_all:
  "first_page bucket n \<lparr>q_prefix = None, q_limit = Some 1000\<rparr>
     = \<lparr>objects = take (min 1000 n) bucket, truncated = (min 1000 n < length bucket)\<rparr>"
  by (simp add: first_page_def Let_def)

lemma rpc_complete_delete_calls:
  "snd (snd (rpc_complete_delete e prepared db cfl lb bundleId)) = []
   \<or> snd (snd (rpc_complete_delete e prepared db cfl lb bundleId))
       = [ListObjects \<lparr>q_prefix = Some bundleId, q_limit = None\<rparr>]"
  by (simp add: rpc_complete_delete_def Let_def
        split: fetched.splits cf_response.splits sum.splits)

lemma rpc_bundle_sizes_calls:
  "snd (rpc_bundle_sizes e cfl req) = []
   \<or> snd (rpc_bundle_sizes e cfl req) = [ListObjects \<lparr>q_prefix = None, q_limit = Some 1000\<rparr>]"
  by (simp add: rpc_bundle_sizes_def Let_def
        split: fetched.splits cf_response.splits sum.splits option.splits json.splits)

lemma rpc_complete_delete_unconfigured:
  assumes "r2_config_missing e"
      and "updateBundle db bundleId False = Inr db1" and "commitBundle db1 = Inr db2"
  shows "rpc_complete_delete e (Inr cfg) db cfl lb bundleId =
     (json_reply
        [(''success'', JBool True),
         (''message'', JStr ''Bundle da bi vo hieu hoa trong database, nhung khong the xoa tu R2 do thieu cau hinh'')]
        200, db2, [])"
  using assms by (simp add: rpc_complete_delete_def)

lemma disable_then_commit:
  assumes "update_fault db = None" and "commit_fault db = None" and "staged db = []"
      and "rows db bundleId = Some b"
  shows "\<exists>db1 db2. updateBundle db bundleId False = Inr db1 \<and> commitBundle db1 = Inr db2
           \<and> rows db2 bundleId = Some (b\<lparr>enabled := False\<rparr>) \<and> staged db2 = []"
  using assms by (simp add: updateBundle_def commitBundle_def apply_staged_def)

lemma cfg_ok: "\<not> r2_config_missing env_ok"
  by (simp add: r2_config_missing_def env_ok_def)

lemma post_missing:
  "post_sizes_b1 [''missing-id''] =
     Resolved \<lparr>resp_ok = True, resp_statusText = ''OK'',
               resp_json = Inr [(''success'', JBool True),
                                (''fileSizes'', JObj [(''missing-id'', JNum 0)])]\<rparr>"
  by (simp add: post_sizes_b1_def rpc_bundle_sizes_def cfg_ok sizes_listing_def Let_def
        size_of_bundle_def bucket_b1_sizes_def of_http_def json_reply_def reason_phrase_def
        get_prop_def)

lemma fetch_missing:
  "fetchFileSizesFromR2 post_sizes_b1 [''missing-id''] = JObj [(''missing-id'', JNum 0)]"
  by (simp add: fetchFileSizesFromR2_def post_missing get_prop_def)

lemma first_call:
  "getFileSizes post_sizes_b1 [] [''missing-id'']
     = ([(''missing-id'', JNum 0)], [(''missing-id'', JNum 0)], [[''missing-id'']])"
  by (simp add: getFileSizes_def Let_def get_prop_def fetch_missing or_zero_def)

lemma second_call:
  "getFileSizes post_sizes_b1 [(''missing-id'', JNum 0)] [''missing-id'']
     = ([(''missing-id'', JNum 0)], [(''missing-id'', JNum 0)], [[''missing-id'']])"
  by (simp add: getFileSizes_def Let_def get_prop_def fetch_missing or_zero_def)

lemma cached_sizes_not_fetched:
  assumes "\<forall>i \<in> set bundleIds. truthy (get_prop fileSizeCache i)"
  shows "snd (snd (getFileSizes post fileSizeCache bundleIds)) = []
       \<and> fst (snd (getFileSizes post fileSizeCache bundleIds)) = fileSizeCache"
proof -
  have "filter (\<lambda>i. \<not> truthy (get_prop fileSizeCache i)) bundleIds = []"
    using assms by (simp add: filter_empty_conv)
  then show ?thesis
    by (simp add: getFileSizes_def Let_def)
qed

lemma listing_b2:
  "prefix_listing bucket_b2 \<lparr>q_prefix = Some ''b2'', q_limit = None\<rparr>
     = Resolved (CfOk (Inr (Some (Some bucket_b2))))"
  by (simp add: prefix_listing_def first_page_def Let_def bucket_b2_def stored_object_def)

lemma keys_b2: "map object_key bucket_b2 = b2_keys"
  by (simp add: bucket_b2_def stored_object_def b2_keys_def)

lemma loopback_keys_object:
  "rpc_delete_r2_objects env_ok cf_all_ok js_string
       (Resolved (JObj [(''keys'', JArr (map JStr b2_keys))]))
     = (json_reply [(''success'', JBool False),
                    (''error'', JStr ''Danh sach keys khong hop le hoac trong'')] 400, [])"
  by (simp add: rpc_delete_r2_objects_def)

lemma complete_delete_b2:
  "rpc_complete_delete env_ok (Inr \<lparr>storage = None\<rparr>) (db_of ''b2'')
       (prefix_listing bucket_b2) (loopback_route env_ok cf_all_ok js_string) ''b2''
     = (json_reply
          [(''success'', JBool True),
           (''message'', JStr ''Bundle da bi vo hieu hoa trong database, undefined/undefined file da bi xoa tu R2''),
           (''r2Result'', JObj [(''success'', JBool False),
                (''error'', JStr ''Danh sach keys khong hop le hoac trong'')])]
          200,
        (db_of ''b2'')\<lparr>rows := [''b2'' \<mapsto> (bundle_of ''b2'')\<lparr>enabled := False\<rparr>]\<rparr>,
        [ListObjects \<lparr>q_prefix = Some ''b2'', q_limit = None\<rparr>])"
proof -
  have u: "updateBundle (db_of ''b2'') ''b2'' False = Inr ((db_of ''b2'')\<lparr>staged := [(''b2'', False)]\<rparr>)"
    by (simp add: updateBundle_def db_of_def)
  have c: "commitBundle ((db_of ''b2'')\<lparr>staged := [(''b2'', False)]\<rparr>)
       = Inr ((db_of ''b2'')\<lparr>rows := [''b2'' \<mapsto> (bundle_of ''b2'')\<lparr>enabled := False\<rparr>]\<rparr>)"
    by (simp add: commitBundle_def apply_staged_def db_of_def)
  have ne: "bucket_b2 \<noteq> []" by (simp add: bucket_b2_def)
  have lb: "loopback_route env_ok cf_all_ok js_string (JObj [(''keys'', JArr (map JStr b2_keys))])
      = Resolved [(''success'', JBool False),
                  (''error'', JStr ''Danh sach keys khong hop le hoac trong'')]"
    by (simp add: loopback_route_def loopback_keys_object json_reply_def)
  show ?thesis
    by (simp add: rpc_complete_delete_def u c cfg_ok Let_def listing_b2 ne keys_b2 lb get_prop_def)
qed

lemma complete_delete_b2_unreachable:
  "fst (rpc_complete_delete env_ok (Inr \<lparr>storage = None\<rparr>) (db_of ''b2'')
       (prefix_listing bucket_b2) loopback_unreachable ''b2'')
     = json_reply [(''success'', JBool False),
                   (''error'', JStr ''Only absolute URLs are supported'')] 500"
proof -
  have u: "updateBundle (db_of ''b2'') ''b2'' False = Inr ((db_of ''b2'')\<lparr>staged := [(''b2'', False)]\<rparr>)"
    by (simp add: updateBundle_def db_of_def)
  have c: "commitBundle ((db_of ''b2'')\<lparr>staged := [(''b2'', False)]\<rparr>)
       = Inr ((db_of ''b2'')\<lparr>rows := [''b2'' \<mapsto> (bundle_of ''b2'')\<lparr>enabled := False\<rparr>]\<rparr>)"
    by (simp add: commitBundle_def apply_staged_def db_of_def)
  have ne: "bucket_b2 \<noteq> []" by (simp add: bucket_b2_def)
  show ?thesis
    by (simp add: rpc_complete_delete_def u c cfg_ok Let_def listing_b2 ne
          loopback_unreachable_def catch_reply_def)
qed

lemma bulk_from_client_b2:
  "bulkDeleteFromR2 (client_route env_ok cf_all_ok js_string) b2_keys
     = [(''success'', JBool True), (''totalObjects'', JNum 3), (''deletedObjects'', JNum 3),
        (''message'', JStr ''Da xoa 3/3 tep tu R2 storage''),
        (''results'', JArr [JObj [(''key'', JStr ''b2/bundle.zip''), (''success'', JBool True)],
                             JObj [(''key'', JStr ''b2/index.js''), (''success'', JBool True)],
                             JObj [(''key'', JStr ''b2/assets.json''), (''success'', JBool True)]])]"
proof -
  have ne: "map JStr b2_keys \<noteq> []" by (simp add: b2_keys_def)
  have ones: "map (\<lambda>k. fst (delete_one cf_all_ok js_string k)) (map JStr b2_keys)
      = [JObj [(''key'', JStr ''b2/bundle.zip''), (''success'', JBool True)],
         JObj [(''key'', JStr ''b2/index.js''), (''success'', JBool True)],
         JObj [(''key'', JStr ''b2/assets.json''), (''success'', JBool True)]]"
    by (simp add: b2_keys_def delete_one_def cf_all_ok_def)
  have cnt: "length (filter (\<lambda>k. snd (delete_one cf_all_ok js_string k)) (map JStr b2_keys)) = 3"
    by (simp add: b2_keys_def delete_one_def cf_all_ok_def)
  have len: "length (map JStr b2_keys) = 3" "b2_keys \<noteq> []" by (simp_all add: b2_keys_def)
  note run = rpc_delete_r2_objects_run [OF cfg_ok ne, of cf_all_ok js_string, unfolded ones cnt len]
  show ?thesis
    by (simp add: bulkDeleteFromR2_def len client_route_def run of_http_def json_reply_def
          show_nat.simps)
qed

lemma delete_one_object_deleted:
  "snd (delete_one cf str (JStr k)) = object_deleted cf k"
  by (simp add: delete_one_def object_deleted_def split: fetched.splits cf_response.splits)

lemma bulk_run_counts:
  "snd (bulk_run p1 p2 ids) =
     \<lparr>overall_success = (\<forall>i \<in> set ids. truthy (dbr_success (deleteD1Bundle p1 p2 i))),
      d1Success = d1_count p1 p2 ids, r2Success = r2_count p1 p2 ids,
      overall_total = length ids\<rparr>"
  by (simp add: bulk_run_def bulk_loop_counts d1_count_def r2_count_def)

lemma bulk_message_counts:
  assumes "ids \<noteq> []"
  shows "bulk_message (bulkDeleteBundles p1 p2 ids) =
     Some (''Da xoa '' @ show_nat (d1_count p1 p2 ids) @ ''/'' @ show_nat (length ids)
           @ '' bundles tu D1, Da xoa '' @ show_nat (r2_count p1 p2 ids) @ ''/''
           @ show_nat (length ids) @ '' bundles tu R2'')"
  using assms by (simp add: bulkDeleteBundles_def case_prod_unfold bulk_run_counts)

lemma bulk_success_d1_count:
  assumes "ids \<noteq> []"
  shows "bulk_success (bulkDeleteBundles p1 p2 ids) \<longleftrightarrow> 0 < d1_count p1 p2 ids"
  using bulk_success_iff [OF assms, of p1 p2] by (simp add: bulk_run_counts)

lemma bulkDeleteFromR2_configured:
  assumes "\<not> r2_config_missing e" and "ids \<noteq> []"
  shows "bulkDeleteFromR2 (client_route e cf str) (map (\<lambda>i. i @ ''/bundle.zip'') ids) =
     [(''success'', JBool (0 < deleted_count cf ids)),
      (''totalObjects'', JNum (int (length ids))),
      (''deletedObjects'', JNum (int (deleted_count cf ids))),
      (''message'', JStr (''Da xoa '' @ show_nat (deleted_count cf ids) @ ''/''
           @ show_nat (length ids) @ '' tep tu R2 storage'')),
      (''results'', JArr (map (\<lambda>i. fst (delete_one cf str (JStr (i @ ''/bundle.zip'')))) ids))]"
proof -
  let ?keys = "map JStr (map (\<lambda>i. i @ ''/bundle.zip'') ids)"
  have ne: "?keys \<noteq> []" using assms(2) by simp
  have cnt: "length (filter (\<lambda>k. snd (delete_one cf str k)) ?keys) = deleted_count cf ids"
    by (simp add: filter_map o_def delete_one_object_deleted deleted_count_def)
  have res: "map (\<lambda>k. fst (delete_one cf str k)) ?keys
      = map (\<lambda>i. fst (delete_one cf str (JStr (i @ ''/bundle.zip'')))) ids"
    by (simp add: o_def)
  have len: "length ?keys = length ids" by simp
  note run = rpc_delete_r2_objects_run [OF assms(1) ne, of cf str, unfolded cnt res len]
  show ?thesis
    unfolding bulkDeleteFromR2_def client_route_def run
    using assms(2) by (simp add: of_http_def json_reply_def)
qed

lemma bulkDeleteFromR2_unconfigured:
  assumes "r2_config_missing e" and "ids \<noteq> []"
  shows "bulkDeleteFromR2 (client_route e cf str) (map (\<lambda>i. i @ ''/bundle.zip'') ids) =
     [(''success'', JBool False), (''error'', JStr ''Loi khi goi API: Internal Server Error'')]"
proof -
  from assms(2) obtain i rest where ids: "ids = i # rest" by (cases ids) simp_all
  show ?thesis
    using assms(1)
    by (simp add: ids bulkDeleteFromR2_def client_route_def rpc_delete_r2_objects_def of_http_def
          json_reply_def reason_phrase_def)
qed

lemma served_d1_ok:
  "d1_ok (deleteD1Bundle (served (rpc_delete_d1 e d1)) (served (rpc_r2_delete e cf str))) i
     \<longleftrightarrow> d1_deleted e d1 i"
  by (simp add: d1_ok_def deleteD1Bundle_def served_def rpc_delete_d1_def d1_deleted_def
        json_reply_def catch_reply_def get_prop_def
        split: fetched.splits cf_response.splits sum.splits)

lemma served_r2_ok:
  "r2_ok (deleteD1Bundle (served (rpc_delete_d1 e d1)) (served (rpc_r2_delete e cf str))) i
     \<longleftrightarrow> (\<not> r2_config_missing e \<and> object_deleted cf (i @ ''/bundle.zip''))"
  by (simp add: r2_ok_def deleteD1Bundle_def served_def rpc_r2_delete_def object_deleted_def
        json_reply_def catch_reply_def get_prop_def js_or_def Let_def
        split: fetched.splits cf_response.splits sum.splits)

lemma rejected_request_counts_nothing:
  assumes "p2 i = Rejected x"
  shows "\<not> d1_ok (deleteD1Bundle p1 p2) i \<and> \<not> r2_ok (deleteD1Bundle p1 p2) i"
  using assms
  by (simp add: d1_ok_def r2_ok_def deleteD1Bundle_def delete_failed_def js_or_def
        split: fetched.splits)

lemma handleBulkDelete_toast:
  assumes "selected \<noteq> []"
  shows "fst (handleBulkDelete p1 p2 del True selected)
           = Some (ToastSuccess (''Da xoa '' @ show_nat (length selected) @ '' bundles thanh cong''))
         \<longleftrightarrow> (bulk_success (bulkDeleteBundles p1 p2 selected)
              \<or> truthy (get_prop (bulkDeleteFromR2 del (map (\<lambda>i. i @ ''/bundle.zip'') selected))
                           ''success''))"
  using assms by (simp add: handleBulkDelete_def Let_def)

lemma key_under_object_json:
  "key_under bundleId (object_json x) = prefix (bundleId @ ''/'') (object_key x)"
  by (simp add: key_under_def object_json_def get_prop_def)

lemma filter_key_under:
  "filter (key_under bundleId) (map object_json xs) = map object_json (stored_under xs bundleId)"
  by (simp add: filter_map o_def key_under_object_json stored_under_def)

lemma stored_under_split:
  "stored_under bucket bundleId
     = stored_under (take k bucket) bundleId @ stored_under (drop k bucket) bundleId"
proof -
  have "stored_under (take k bucket @ drop k bucket) bundleId
      = stored_under (take k bucket) bundleId @ stored_under (drop k bucket) bundleId"
    unfolding stored_under_def by (rule filter_append)
  then show ?thesis by simp
qed

lemma first_page_complete_iff:
  "map object_json (stored_under (take k bucket) bundleId)
     = map object_json (stored_under bucket bundleId)
   \<longleftrightarrow> stored_under (drop k bucket) bundleId = []"
proof
  assume eq: "map object_json (stored_under (take k bucket) bundleId)
     = map object_json (stored_under bucket bundleId)"
  have "length (stored_under (take k bucket) bundleId) = length (stored_under bucket bundleId)"
    using arg_cong [OF eq, of length] by simp
  also have "\<dots> = length (stored_under (take k bucket) bundleId)
                 + length (stored_under (drop k bucket) bundleId)"
    using arg_cong [OF stored_under_split [of bucket bundleId k], of length] by simp
  finally show "stored_under (drop k bucket) bundleId = []" by simp
next
  assume "stored_under (drop k bucket) bundleId = []"
  then show "map object_json (stored_under (take k bucket) bundleId)
     = map object_json (stored_under bucket bundleId)"
    using stored_under_split [of bucket bundleId k] by simp
qed

lemma listing_bucket_two:
  "rpc_get_r2_objects env_ok (paged_listing bucket_two 1000)
     = (json_reply [(''success'', JBool True), (''objects'', JArr (map object_json bucket_two))] 200,
        [ListObjects \<lparr>q_prefix = None, q_limit = Some 1000\<rparr>])"
proof -
  have len: "length bucket_two = 4" by (simp add: bucket_two_def bucket_b2_def)
  have page: "first_page bucket_two 1000 \<lparr>q_prefix = None, q_limit = Some 1000\<rparr>
      = \<lparr>objects = bucket_two, truncated = False\<rparr>"
    by (simp add: first_page_def Let_def len)
  show ?thesis
    by (simp add: rpc_get_r2_objects_def cfg_ok Let_def paged_listing_def page)
qed

lemma under_bucket_two: "stored_under bucket_two ''b2'' = bucket_b2"
  by (simp add: stored_under_def bucket_two_def bucket_b2_def stored_object_def)

section \<open>Soft delete: a metadata failure is a hard error\<close>

text \<open>
  Claim C6. For every bundle id, if the metadata update or the commit of the soft
  delete throws, the route answers with status 500 and the body
  \<open>{ success: false, error: <message> }\<close>, whatever the storage plugin did before
  (\<open>cfg\<close> is arbitrary); the rows of the metadata store are as they were.
\<close>

theorem soft_delete_metadata_failure_is_hard_error:
  assumes "updateBundle db bundleId False = Inl e
           \<or> (\<exists>db1. updateBundle db bundleId False = Inr db1 \<and> commitBundle db1 = Inl e)"
  shows "fst (rpc_delete_bundle (Inr cfg) db bundleId)
           = \<lparr>status = 500, body = [(''success'', JBool False), (''error'', JStr (thrown_text e))]\<rparr>
         \<and> rows (snd (rpc_delete_bundle (Inr cfg) db bundleId)) = rows db"
  using assms
  by (auto simp: rpc_delete_bundle_update_fails rpc_delete_bundle_commit_fails
        db_error_reply_def json_reply_def updateBundle_rows)

theorem soft_delete_metadata_failure_is_hard_error_witness:
  "updateBundle db_commit_fails ''b1'' False = Inr (db_commit_fails\<lparr>staged := [(''b1'', False)]\<rparr>)
   \<and> commitBundle (db_commit_fails\<lparr>staged := [(''b1'', False)]\<rparr>) = Inl (JsError ''D1 unavailable'')
   \<and> fst (rpc_delete_bundle (Inr \<lparr>storage = Some plugin_ok\<rparr>) db_commit_fails ''b1'')
       = \<lparr>status = 500, body = [(''success'', JBool False), (''error'', JStr ''D1 unavailable'')]\<rparr>
   \<and> rows (snd (rpc_delete_bundle (Inr \<lparr>storage = Some plugin_ok\<rparr>) db_commit_fails ''b1'')) ''b1''
       = Some (bundle_of ''b1'')"
proof -
  have upd: "updateBundle db_commit_fails ''b1'' False
      = Inr (db_commit_fails\<lparr>staged := [(''b1'', False)]\<rparr>)"
    by (simp add: updateBundle_def db_commit_fails_def db_of_def)
  have com: "commitBundle (db_commit_fails\<lparr>staged := [(''b1'', False)]\<rparr>)
      = Inl (JsError ''D1 unavailable'')"
    by (simp add: commitBundle_def db_commit_fails_def db_of_def)
  have hyp: "updateBundle db_commit_fails ''b1'' False = Inl (JsError ''D1 unavailable'')
      \<or> (\<exists>db1. updateBundle db_commit_fails ''b1'' False = Inr db1
               \<and> commitBundle db1 = Inl (JsError ''D1 unavailable''))"
    using upd com by simp
  note concl = soft_delete_metadata_failure_is_hard_error
      [where db = db_commit_fails and bundleId = "''b1''" and e = "JsError ''D1 unavailable''"
         and cfg = "\<lparr>storage = Some plugin_ok\<rparr>", OF hyp]
  have rows0: "rows db_commit_fails ''b1'' = Some (bundle_of ''b1'')"
    by (simp add: db_commit_fails_def db_of_def)
  from concl rows0 upd com show ?thesis by simp
qed

section \<open>Deleting an object that is not there\<close>

text \<open>
  Claim C5. The storage plugin's \<open>deleteBundle\<close> treats the not-found error as success
  and resolves with the bundle id; every other failure of the backend is rejected with
  an \<open>Error\<close> that carries a message. Against a remote store, deleting the same bundle
  twice succeeds both times. The storage branch of the soft-delete route records no
  storage error for the not-found error and the text of every other one, and the route
  run with this plugin reports such a failure as \<open>storageError\<close> of a partial success.
\<close>

theorem delete_not_found_is_success:
  "(wrangler s (delete_command rcfg bundleId) = (Some (JsError ''Bundle Not Found''), s') \<longrightarrow>
      r2Storage_deleteBundle wrangler rcfg s bundleId = (Inr bundleId, s'))
   \<and> (wrangler s (delete_command rcfg bundleId) = (Some e, s') \<and> e \<noteq> JsError ''Bundle Not Found'' \<longrightarrow>
      (\<exists>m. m \<noteq> [] \<and> r2Storage_deleteBundle wrangler rcfg s bundleId = (Inl (JsError m), s')))
   \<and> (outage remote = None \<longrightarrow>
      (case r2Storage_deleteBundle wrangler_remote rcfg remote bundleId of
         (r1, remote1) \<Rightarrow>
           (case r2Storage_deleteBundle wrangler_remote rcfg remote1 bundleId of
              (r2, remote2) \<Rightarrow> r1 = Inr bundleId \<and> r2 = Inr bundleId)))
   \<and> (storage cfg = Some plugin \<and> plugin bundleId = Inl (JsError ''Bundle Not Found'') \<longrightarrow>
      storage_branch cfg bundleId = None)
   \<and> (storage cfg = Some plugin \<and> plugin bundleId = Inl e \<and> e \<noteq> JsError ''Bundle Not Found'' \<longrightarrow>
      storage_branch cfg bundleId = Some (thrown_text e))
   \<and> (wrangler s (delete_command rcfg bundleId) = (Some e, s') \<and> e \<noteq> JsError ''Bundle Not Found''
       \<and> storage cfg = Some (\<lambda>i. fst (r2Storage_deleteBundle wrangler rcfg s i))
       \<and> update_fault db = None \<and> commit_fault db = None \<longrightarrow>
      (\<exists>m. fst (rpc_delete_bundle (Inr cfg) db bundleId)
             = json_reply
                 [(''success'', JBool True), (''partialSuccess'', JBool True),
                  (''storageError'', JStr m),
                  (''message'', JStr ''Bundle da bi xoa khoi database nhung khong the xoa file tu storage'')]
                 200))"
  (is "?not_found \<and> ?other \<and> ?twice \<and> ?branch_nf \<and> ?branch_other \<and> ?composed")
proof (intro conjI)
  show ?not_found
    by (simp add: r2Storage_deleteBundle_def)
  show ?other
  proof (intro impI, elim conjE)
    assume w: "wrangler s (delete_command rcfg bundleId) = (Some e, s')"
       and ne: "e \<noteq> JsError ''Bundle Not Found''"
    from r2Storage_deleteBundle_failure [of wrangler s rcfg bundleId e s', OF w ne]
    obtain m where m1: "m \<noteq> []" and m2: "m \<noteq> ''Bundle Not Found''"
      and m3: "r2Storage_deleteBundle wrangler rcfg s bundleId = (Inl (JsError m), s')"
      by (elim exE conjE)
    show "\<exists>m. m \<noteq> [] \<and> r2Storage_deleteBundle wrangler rcfg s bundleId = (Inl (JsError m), s')"
      by (rule exI, rule conjI, rule m1, rule m3)
  qed
  show ?twice
    by (rule impI) (rule wrangler_remote_twice)
  show ?branch_nf
    by (simp add: storage_branch_def)
  show ?branch_other
    by (simp add: storage_branch_def)
  show ?composed
  proof (intro impI, elim conjE)
    assume w: "wrangler s (delete_command rcfg bundleId) = (Some e, s')"
      and ne: "e \<noteq> JsError ''Bundle Not Found''"
      and st: "storage cfg = Some (\<lambda>i. fst (r2Storage_deleteBundle wrangler rcfg s i))"
      and uf: "update_fault db = None" and cf: "commit_fault db = None"
    from storage_branch_r2Storage [of wrangler s rcfg bundleId e s' cfg, OF w ne st]
    obtain c cs where sb: "storage_branch cfg bundleId = Some (c # cs)"
      by (elim exE)
    note reply = rpc_delete_bundle_partial [OF sb uf cf]
    show "\<exists>m. fst (rpc_delete_bundle (Inr cfg) db bundleId)
             = json_reply
                 [(''success'', JBool True), (''partialSuccess'', JBool True),
                  (''storageError'', JStr m),
                  (''message'', JStr ''Bundle da bi xoa khoi database nhung khong the xoa file tu storage'')]
                 200"
      by (rule exI) (rule reply)
  qed
qed

theorem delete_not_found_is_success_witness:
  "wrangler_remote remote_empty (delete_command r2cfg ''b1'')
      = (Some (JsError ''Bundle Not Found''), remote_empty)
   \<and> r2Storage_deleteBundle wrangler_remote r2cfg remote_empty ''b1'' = (Inr ''b1'', remote_empty)
   \<and> wrangler_remote remote_down (delete_command r2cfg ''b1'')
      = (Some (JsError ''Authentication error''), remote_down)
   \<and> r2Storage_deleteBundle wrangler_remote r2cfg remote_down ''b1''
      = (Inl (JsError ''Failed to delete bundle b1 from R2: Authentication error''), remote_down)
   \<and> outage remote_b1 = None
   \<and> r2Storage_deleteBundle wrangler_remote r2cfg remote_b1 ''b1'' = (Inr ''b1'', remote_empty)
   \<and> storage_branch \<lparr>storage = Some plugin_not_found\<rparr> ''b1'' = None
   \<and> storage_branch \<lparr>storage = Some plugin_unreachable\<rparr> ''b1'' = Some ''connect ETIMEDOUT''
   \<and> fst (rpc_delete_bundle (Inr \<lparr>storage = Some plugin_r2_down\<rparr>) (db_of ''b1'') ''b1'')
      = json_reply
          [(''success'', JBool True), (''partialSuccess'', JBool True),
           (''storageError'', JStr ''Failed to delete bundle b1 from R2: Authentication error''),
           (''message'', JStr ''Bundle da bi xoa khoi database nhung khong the xoa file tu storage'')]
          200"
proof -
  note a = delete_not_found_is_success
      [where wrangler = wrangler_remote and s = remote_empty and s' = remote_empty
         and rcfg = r2cfg and bundleId = "''b1''" and remote = remote_b1
         and cfg = "\<lparr>storage = Some plugin_not_found\<rparr>" and plugin = plugin_not_found]
  note b = delete_not_found_is_success
      [where cfg = "\<lparr>storage = Some plugin_unreachable\<rparr>" and plugin = plugin_unreachable
         and bundleId = "''b1''" and e = "JsString ''connect ETIMEDOUT''"]
  have h1: "wrangler_remote remote_empty (delete_command r2cfg ''b1'')
      = (Some (JsError ''Bundle Not Found''), remote_empty)"
    by (simp add: wrangler_remote_def remote_empty_def delete_command_def)
  have h2: "wrangler_remote remote_down (delete_command r2cfg ''b1'')
      = (Some (JsError ''Authentication error''), remote_down)"
    by (simp add: wrangler_remote_def remote_down_def)
  have h3: "outage remote_b1 = None"
    by (simp add: remote_b1_def)
  have h4: "storage \<lparr>storage = Some plugin_not_found\<rparr> = Some plugin_not_found
      \<and> plugin_not_found ''b1'' = Inl (JsError ''Bundle Not Found'')"
    by (simp add: plugin_not_found_def)
  have h5: "storage \<lparr>storage = Some plugin_unreachable\<rparr> = Some plugin_unreachable
      \<and> plugin_unreachable ''b1'' = Inl (JsString ''connect ETIMEDOUT'')
      \<and> JsString ''connect ETIMEDOUT'' \<noteq> JsError ''Bundle Not Found''"
    by (simp add: plugin_unreachable_def)
  note d = delete_not_found_is_success
      [where wrangler = wrangler_remote and s = remote_down and s' = remote_down
         and rcfg = r2cfg and bundleId = "''b1''" and e = "JsError ''Authentication error''"
         and cfg = "\<lparr>storage = Some plugin_r2_down\<rparr>" and db = "db_of ''b1''"]
  have h6: "JsError ''Authentication error'' \<noteq> JsError ''Bundle Not Found''"
    by simp
  have h7: "storage \<lparr>storage = Some plugin_r2_down\<rparr>
      = Some (\<lambda>i. fst (r2Storage_deleteBundle wrangler_remote r2cfg remote_down i))"
    by (simp add: fun_eq_iff plugin_r2_down_def)
  have h8: "update_fault (db_of ''b1'') = None \<and> commit_fault (db_of ''b1'') = None"
    by (simp add: db_of_def)
  note c2 = d [THEN conjunct2, THEN conjunct1, THEN mp, OF conjI [OF h2 h6]]
  note c6 = d [THEN conjunct2, THEN conjunct2, THEN conjunct2, THEN conjunct2, THEN conjunct2,
               THEN mp, OF conjI [OF h2 conjI [OF h6 conjI [OF h7 h8]]]]
  note c1 = a [THEN conjunct1, THEN mp, OF h1]
  note c4 = a [THEN conjunct2, THEN conjunct2, THEN conjunct2, THEN conjunct1, THEN mp, OF h4]
  have c5: "storage_branch \<lparr>storage = Some plugin_unreachable\<rparr> ''b1'' = Some ''connect ETIMEDOUT''"
    using b [THEN conjunct2, THEN conjunct2, THEN conjunct2, THEN conjunct2, THEN conjunct1,
             THEN mp, OF h5]
    by simp
  have js1: "\<not> js_includes ''Authentication error'' ''wrangler: command not found''"
    by simp
  have js2: "\<not> js_includes ''Authentication error'' ''Command failed with exit code 127''"
    by simp
  have down: "r2Storage_deleteBundle wrangler_remote r2cfg remote_down ''b1''
      = (Inl (JsError ''Failed to delete bundle b1 from R2: Authentication error''), remote_down)"
    unfolding r2Storage_deleteBundle_def h2 using js1 js2 by simp
  have first: "r2Storage_deleteBundle wrangler_remote r2cfg remote_b1 ''b1'' = (Inr ''b1'', remote_empty)"
    by (simp add: r2Storage_deleteBundle_def wrangler_remote_def remote_b1_def remote_empty_def
          delete_command_def r2cfg_def)
  have sb: "storage_branch \<lparr>storage = Some plugin_r2_down\<rparr> ''b1''
      = Some ''Failed to delete bundle b1 from R2: Authentication error''"
    by (simp add: storage_branch_def plugin_r2_down_def down)
  have reply: "fst (rpc_delete_bundle (Inr \<lparr>storage = Some plugin_r2_down\<rparr>) (db_of ''b1'') ''b1'')
      = json_reply
          [(''success'', JBool True), (''partialSuccess'', JBool True),
           (''storageError'', JStr ''Failed to delete bundle b1 from R2: Authentication error''),
           (''message'', JStr ''Bundle da bi xoa khoi database nhung khong the xoa file tu storage'')]
          200"
    by (simp add: rpc_delete_bundle_def sb updateBundle_def commitBundle_def db_of_def)
  show ?thesis
    using c2 c6 h1 c1 h2 down h3 first c4 c5 reply
    by (intro conjI)
qed

section \<open>The client wrappers\<close>

text \<open>
  Claim C10. \<open>deleteBundle\<close> and \<open>disableBundle\<close> return \<open>success: true\<close> whenever the
  request resolves with a body that has no \<open>success\<close> property of its own, keeping the
  body's other properties; when the request rejects they return \<open>success: false\<close> with
  the error text. For bodies without \<open>success\<close>, the result says \<open>success: false\<close> only
  when the request rejected. The server's outer \<open>catch\<close> answers with status 500 and the
  error-only body \<open>{ error }\<close>, which the wrappers turn into \<open>success: true\<close>. (A body
  that does carry \<open>success\<close> keeps its own value: the last conjunct.)
\<close>

theorem client_wrappers_default_success_true:
  "(api bundleId = Resolved data \<and> get_prop data ''success'' = None \<longrightarrow>
      get_prop (deleteBundle api bundleId) ''success'' = Some (JBool True)
      \<and> get_prop (disableBundle api bundleId) ''success'' = Some (JBool True)
      \<and> (\<forall>k. k \<noteq> ''success'' \<longrightarrow> get_prop (deleteBundle api bundleId) k = get_prop data k
                              \<and> get_prop (disableBundle api bundleId) k = get_prop data k))
   \<and> (api bundleId = Rejected err \<longrightarrow>
      deleteBundle api bundleId = [(''success'', JBool False), (''error'', JStr (thrown_text err))]
      \<and> disableBundle api bundleId = [(''success'', JBool False), (''error'', JStr (thrown_text err))])
   \<and> ((\<forall>d. api bundleId = Resolved d \<longrightarrow> get_prop d ''success'' = None) \<longrightarrow>
      (get_prop (deleteBundle api bundleId) ''success'' = Some (JBool False)
         \<longleftrightarrow> (\<exists>x. api bundleId = Rejected x))
      \<and> (get_prop (disableBundle api bundleId) ''success'' = Some (JBool False)
         \<longleftrightarrow> (\<exists>x. api bundleId = Rejected x)))
   \<and> fst (rpc_delete_bundle (Inl (JsError m)) db bundleId)
        = \<lparr>status = 500, body = [(''error'', JStr m)]\<rparr>
   \<and> get_prop (deleteBundle (served (rpc_delete_bundle (Inl (JsError m)) db)) bundleId) ''success''
        = Some (JBool True)
   \<and> (update_fault db = Some (JsError m) \<longrightarrow>
        fst (rpc_disable_bundle (Inr cfg) db bundleId) = \<lparr>status = 500, body = [(''error'', JStr m)]\<rparr>
        \<and> get_prop (disableBundle (served (rpc_disable_bundle (Inr cfg) db)) bundleId) ''success''
             = Some (JBool True))
   \<and> (api bundleId = Resolved data \<and> get_prop data ''success'' = Some v \<longrightarrow>
        get_prop (deleteBundle api bundleId) ''success'' = Some v
        \<and> get_prop (disableBundle api bundleId) ''success'' = Some v)"
proof -
  have own: "api bundleId = Resolved data \<and> get_prop data ''success'' = Some v \<longrightarrow>
        get_prop (deleteBundle api bundleId) ''success'' = Some v
        \<and> get_prop (disableBundle api bundleId) ''success'' = Some v"
    by (simp add: deleteBundle_def disableBundle_def get_prop_spread)
  have spread_success: "get_prop d ''success'' = None \<Longrightarrow>
      get_prop (spread [(''success'', JBool True)] d) ''success'' = Some (JBool True)" for d
    by (simp add: get_prop_spread) (simp add: get_prop_def)
  have spread_other: "k \<noteq> ''success'' \<Longrightarrow>
      get_prop (spread [(''success'', JBool True)] d) k = get_prop d k" for d k
    by (simp add: get_prop_spread split: option.splits) (simp add: get_prop_def)
  have resolved: "api bundleId = Resolved data \<and> get_prop data ''success'' = None \<longrightarrow>
      get_prop (deleteBundle api bundleId) ''success'' = Some (JBool True)
      \<and> get_prop (disableBundle api bundleId) ''success'' = Some (JBool True)
      \<and> (\<forall>k. k \<noteq> ''success'' \<longrightarrow> get_prop (deleteBundle api bundleId) k = get_prop data k
                              \<and> get_prop (disableBundle api bundleId) k = get_prop data k)"
    by (simp add: deleteBundle_def disableBundle_def spread_success spread_other)
  have rejected: "api bundleId = Rejected err \<longrightarrow>
      deleteBundle api bundleId = [(''success'', JBool False), (''error'', JStr (thrown_text err))]
      \<and> disableBundle api bundleId = [(''success'', JBool False), (''error'', JStr (thrown_text err))]"
    by (simp add: deleteBundle_def disableBundle_def)
  have only_when: "(\<forall>d. api bundleId = Resolved d \<longrightarrow> get_prop d ''success'' = None) \<longrightarrow>
      (get_prop (deleteBundle api bundleId) ''success'' = Some (JBool False)
         \<longleftrightarrow> (\<exists>x. api bundleId = Rejected x))
      \<and> (get_prop (disableBundle api bundleId) ''success'' = Some (JBool False)
         \<longleftrightarrow> (\<exists>x. api bundleId = Rejected x))"
  proof (cases "api bundleId")
    case (Resolved d)
    then show ?thesis
      by (simp add: deleteBundle_def disableBundle_def spread_success)
  next
    case (Rejected x)
    then show ?thesis
      by (simp add: deleteBundle_def disableBundle_def get_prop_def)
  qed
  have error_only: "get_prop [(''error'', JStr m)] ''success'' = None"
    by (simp add: get_prop_def)
  have server_delete: "fst (rpc_delete_bundle (Inl (JsError m)) db bundleId)
        = \<lparr>status = 500, body = [(''error'', JStr m)]\<rparr>"
    by (simp add: rpc_delete_bundle_def json_reply_def)
  have wrapped_delete:
    "get_prop (deleteBundle (served (rpc_delete_bundle (Inl (JsError m)) db)) bundleId) ''success''
        = Some (JBool True)"
    using spread_success [OF error_only]
    by (simp add: deleteBundle_def served_def server_delete)
  have server_disable: "update_fault db = Some (JsError m) \<longrightarrow>
        fst (rpc_disable_bundle (Inr cfg) db bundleId) = \<lparr>status = 500, body = [(''error'', JStr m)]\<rparr>"
    by (simp add: rpc_disable_bundle_def updateBundle_def json_reply_def)
  have wrapped_disable: "update_fault db = Some (JsError m) \<longrightarrow>
        get_prop (disableBundle (served (rpc_disable_bundle (Inr cfg) db)) bundleId) ''success''
             = Some (JBool True)"
    using server_disable spread_success [OF error_only]
    by (simp add: disableBundle_def served_def)
  show ?thesis
    using resolved rejected only_when server_delete wrapped_delete server_disable wrapped_disable
      own
    by blast
qed

theorem client_wrappers_default_success_true_witness:
  "api_error_only ''b1'' = Resolved [(''error'', JStr ''Database plugin initialization failed'')]
   \<and> get_prop [(''error'', JStr ''Database plugin initialization failed'')] ''success'' = None
   \<and> get_prop (deleteBundle api_error_only ''b1'') ''success'' = Some (JBool True)
   \<and> get_prop (disableBundle api_error_only ''b1'') ''success'' = Some (JBool True)
   \<and> get_prop (deleteBundle api_error_only ''b1'') ''error''
        = Some (JStr ''Database plugin initialization failed'')
   \<and> api_offline ''b1'' = Rejected (JsError ''Failed to fetch'')
   \<and> deleteBundle api_offline ''b1'' = [(''success'', JBool False), (''error'', JStr ''Failed to fetch'')]
   \<and> disableBundle api_offline ''b1'' = [(''success'', JBool False), (''error'', JStr ''Failed to fetch'')]
   \<and> get_prop (deleteBundle api_offline ''b1'') ''success'' = Some (JBool False)
   \<and> api_db_failed ''b1'' = Resolved [(''success'', JBool False), (''error'', JStr ''D1 unavailable'')]
   \<and> get_prop [(''success'', JBool False), (''error'', JStr ''D1 unavailable'')] ''success''
        = Some (JBool False)
   \<and> get_prop (deleteBundle api_db_failed ''b1'') ''success'' = Some (JBool False)
   \<and> update_fault db_update_fails = Some (JsError ''D1 unavailable'')
   \<and> fst (rpc_disable_bundle (Inr \<lparr>storage = None\<rparr>) db_update_fails ''b1'')
        = \<lparr>status = 500, body = [(''error'', JStr ''D1 unavailable'')]\<rparr>
   \<and> get_prop (disableBundle (served (rpc_disable_bundle (Inr \<lparr>storage = None\<rparr>) db_update_fails)) ''b1'')
        ''success'' = Some (JBool True)"
proof -
  note a = client_wrappers_default_success_true
      [where api = api_error_only and bundleId = "''b1''"
         and data = "[(''error'', JStr ''Database plugin initialization failed'')]"
         and m = "''D1 unavailable''" and db = db_update_fails and cfg = "\<lparr>storage = None\<rparr>"]
  note b = client_wrappers_default_success_true
      [where api = api_offline and bundleId = "''b1''" and err = "JsError ''Failed to fetch''"]
  have h1: "api_error_only ''b1'' = Resolved [(''error'', JStr ''Database plugin initialization failed'')]"
    by (simp add: api_error_only_def)
  have h2: "get_prop [(''error'', JStr ''Database plugin initialization failed'')] ''success'' = None"
    by (simp add: get_prop_def)
  have h3: "api_offline ''b1'' = Rejected (JsError ''Failed to fetch'')"
    by (simp add: api_offline_def)
  have h4: "update_fault db_update_fails = Some (JsError ''D1 unavailable'')"
    by (simp add: db_update_fails_def db_of_def)
  note c1 = a [THEN conjunct1, THEN mp, OF conjI [OF h1 h2]]
  note c2 = b [THEN conjunct2, THEN conjunct1, THEN mp, OF h3]
  note c6 = a [THEN conjunct2, THEN conjunct2, THEN conjunct2, THEN conjunct2, THEN conjunct2,
               THEN conjunct1, THEN mp, OF h4]
  have h5: "\<forall>d. api_offline ''b1'' = Resolved d \<longrightarrow> get_prop d ''success'' = None"
    by (simp add: api_offline_def)
  have h5': "\<exists>x. api_offline ''b1'' = Rejected x"
    by (simp add: api_offline_def)
  note c3 = b [THEN conjunct2, THEN conjunct2, THEN conjunct1, THEN mp, OF h5, THEN conjunct1,
               THEN iffD2, OF h5']
  note d = client_wrappers_default_success_true
      [where api = api_db_failed and bundleId = "''b1''"
         and data = "[(''success'', JBool False), (''error'', JStr ''D1 unavailable'')]"
         and v = "JBool False"]
  have h7: "api_db_failed ''b1'' = Resolved [(''success'', JBool False), (''error'', JStr ''D1 unavailable'')]"
    by (simp add: api_db_failed_def served_def rpc_delete_bundle_def updateBundle_def
          commitBundle_def db_commit_fails_def db_of_def db_error_reply_def json_reply_def)
  have h8: "get_prop [(''success'', JBool False), (''error'', JStr ''D1 unavailable'')] ''success''
        = Some (JBool False)"
    by (simp add: get_prop_def)
  note c7 = d [THEN conjunct2, THEN conjunct2, THEN conjunct2, THEN conjunct2, THEN conjunct2,
               THEN conjunct2, THEN mp, OF conjI [OF h7 h8], THEN conjunct1]
  have other: "get_prop (deleteBundle api_error_only ''b1'') ''error''
        = Some (JStr ''Database plugin initialization failed'')"
    using c1 [THEN conjunct2, THEN conjunct2, THEN spec, of "''error''"]
    by (simp add: get_prop_def)
  have thrown: "thrown_text (JsError ''Failed to fetch'') = ''Failed to fetch''"
    by simp
  show ?thesis
    using h1 h2 h3 h4 c1 [THEN conjunct1] c1 [THEN conjunct2, THEN conjunct1] other
      c2 [unfolded thrown] c3 h7 h8 c7 c6
    by (intro conjI) (assumption | erule conjunct1 | erule conjunct2)+
qed

section \<open>Soft delete: a storage error with an empty text\<close>

text \<open>
  Claim C1, at the input where the route departs from it. The storage plugin rejects
  with an \<open>Error\<close> whose message is empty (\<open>new Error()\<close>); it is not the not-found
  error, so the storage branch captures its text, the empty string. The record is
  disabled and committed, as the claim says, but \<open>if (storageError)\<close> takes the empty
  string for no error: the answer is the plain success, with neither \<open>partialSuccess\<close>
  nor \<open>storageError\<close>. A storage error with a text, here a thrown string, is reported as
  the claim says (last conjunct, and lemma \<open>rpc_delete_bundle_partial\<close> for every such
  text).
\<close>

theorem soft_delete_empty_storage_error_text:
  "storage_branch \<lparr>storage = Some plugin_empty_error\<rparr> ''b1'' = Some []
   \<and> fst (rpc_delete_bundle (Inr \<lparr>storage = Some plugin_empty_error\<rparr>) (db_of ''b1'') ''b1'')
       = \<lparr>status = 200, body = [(''success'', JBool True),
                                (''message'', JStr ''Bundle da duoc xoa thanh cong'')]\<rparr>
   \<and> get_prop (body (fst (rpc_delete_bundle (Inr \<lparr>storage = Some plugin_empty_error\<rparr>)
                          (db_of ''b1'') ''b1''))) ''partialSuccess'' = None
   \<and> get_prop (body (fst (rpc_delete_bundle (Inr \<lparr>storage = Some plugin_empty_error\<rparr>)
                          (db_of ''b1'') ''b1''))) ''storageError'' = None
   \<and> rows (snd (rpc_delete_bundle (Inr \<lparr>storage = Some plugin_empty_error\<rparr>) (db_of ''b1'') ''b1'')) ''b1''
       = Some ((bundle_of ''b1'')\<lparr>enabled := False\<rparr>)
   \<and> fst (rpc_delete_bundle (Inr \<lparr>storage = Some plugin_unreachable\<rparr>) (db_of ''b1'') ''b1'')
       = \<lparr>status = 200, body = [(''success'', JBool True), (''partialSuccess'', JBool True),
            (''storageError'', JStr ''connect ETIMEDOUT''),
            (''message'', JStr ''Bundle da bi xoa khoi database nhung khong the xoa file tu storage'')]\<rparr>"
proof -
  have other: "storage_branch \<lparr>storage = Some plugin_unreachable\<rparr> ''b1'' = Some ''connect ETIMEDOUT''"
    by (simp add: storage_branch_def plugin_unreachable_def)
  have faults: "update_fault (db_of ''b1'') = None" "commit_fault (db_of ''b1'') = None"
    by (simp_all add: db_of_def)
  note partial = rpc_delete_bundle_partial [OF other faults, unfolded json_reply_def]
  have sb: "storage_branch \<lparr>storage = Some plugin_empty_error\<rparr> ''b1'' = Some []"
    by (simp add: storage_branch_def plugin_empty_error_def)
  have run: "rpc_delete_bundle (Inr \<lparr>storage = Some plugin_empty_error\<rparr>) (db_of ''b1'') ''b1''
      = (\<lparr>status = 200, body = [(''success'', JBool True),
                                (''message'', JStr ''Bundle da duoc xoa thanh cong'')]\<rparr>,
         (db_of ''b1'')\<lparr>rows := [''b1'' \<mapsto> (bundle_of ''b1'')\<lparr>enabled := False\<rparr>]\<rparr>)"
    by (simp add: rpc_delete_bundle_def sb updateBundle_def commitBundle_def apply_staged_def
          db_of_def json_reply_def)
  show ?thesis
    using partial by (simp add: sb run get_prop_def)
qed

section \<open>Bulk deletion of objects\<close>

text \<open>
  Claim C7. With the R2 configuration present, \<open>rpc.delete("/r2/objects")\<close> on a
  non-empty list of K keys sends one delete request per key, in order, whatever the
  earlier requests did; \<open>results\<close> has one entry per key, built from that key's own
  request only, \<open>totalObjects\<close> is K and \<open>deletedObjects\<close> is the number of entries whose
  \<open>success\<close> is true. An entry's \<open>success\<close> is true exactly when its request resolved
  with an ok response.
\<close>

theorem bulk_object_delete_accounts_for_every_key:
  assumes "\<not> r2_config_missing e" and "ks \<noteq> []"
  shows "get_prop (body (fst (rpc_delete_r2_objects e cf str (Resolved (JArr (map JStr ks))))))
            ''results'' = Some (JArr (map (\<lambda>k. fst (delete_one cf str (JStr k))) ks))
       \<and> length (map (\<lambda>k. fst (delete_one cf str (JStr k))) ks) = length ks
       \<and> get_prop (body (fst (rpc_delete_r2_objects e cf str (Resolved (JArr (map JStr ks))))))
            ''totalObjects'' = Some (JNum (int (length ks)))
       \<and> get_prop (body (fst (rpc_delete_r2_objects e cf str (Resolved (JArr (map JStr ks))))))
            ''deletedObjects''
          = Some (JNum (int (length (filter success_flag
                (map (\<lambda>k. fst (delete_one cf str (JStr k))) ks)))))
       \<and> snd (rpc_delete_r2_objects e cf str (Resolved (JArr (map JStr ks)))) = map DeleteObject ks
       \<and> (success_flag (fst (delete_one cf str (JStr k)))
            \<longleftrightarrow> (\<exists>x. cf k = Resolved (CfOk x)))"
proof -
  have ne: "map JStr ks \<noteq> []" using assms(2) by simp
  note run = rpc_delete_r2_objects_run [OF assms(1) ne, of cf str]
  have cnt: "length (filter (\<lambda>k. snd (delete_one cf str k)) (map JStr ks))
      = length (filter success_flag (map (\<lambda>k. fst (delete_one cf str (JStr k))) ks))"
    by (simp add: filter_map o_def success_flag_delete_one)
  have res: "map (\<lambda>k. fst (delete_one cf str k)) (map JStr ks)
      = map (\<lambda>k. fst (delete_one cf str (JStr k))) ks"
    by (simp add: o_def)
  have calls: "map (\<lambda>k. DeleteObject (js_string k)) (map JStr ks) = map DeleteObject ks"
    by (simp add: o_def)
  have one: "success_flag (fst (delete_one cf str (JStr k))) \<longleftrightarrow> (\<exists>x. cf k = Resolved (CfOk x))"
    using delete_one_ok_iff [of cf str "JStr k"] by (simp add: success_flag_delete_one)
  show ?thesis
    unfolding run cnt res calls using one
    by (simp add: json_reply_def get_prop_def)
qed

theorem bulk_object_delete_accounts_for_every_key_witness:
  "\<not> r2_config_missing env_ok \<and> three_keys \<noteq> []
   \<and> get_prop (body (fst (rpc_delete_r2_objects env_ok cf_b2_rejects js_string
          (Resolved (JArr (map JStr three_keys)))))) ''results''
      = Some (JArr
          [JObj [(''key'', JStr ''b1/bundle.zip''), (''success'', JBool True)],
           JObj [(''key'', JStr ''b2/bundle.zip''), (''success'', JBool False),
                 (''error'', JStr ''socket hang up'')],
           JObj [(''key'', JStr ''b3/bundle.zip''), (''success'', JBool True)]])
   \<and> get_prop (body (fst (rpc_delete_r2_objects env_ok cf_b2_rejects js_string
          (Resolved (JArr (map JStr three_keys)))))) ''totalObjects'' = Some (JNum 3)
   \<and> get_prop (body (fst (rpc_delete_r2_objects env_ok cf_b2_rejects js_string
          (Resolved (JArr (map JStr three_keys)))))) ''deletedObjects'' = Some (JNum 2)
   \<and> snd (rpc_delete_r2_objects env_ok cf_b2_rejects js_string
          (Resolved (JArr (map JStr three_keys))))
      = [DeleteObject ''b1/bundle.zip'', DeleteObject ''b2/bundle.zip'', DeleteObject ''b3/bundle.zip'']"
proof -
  have h1: "\<not> r2_config_missing env_ok"
    by (simp add: r2_config_missing_def env_ok_def)
  have h2: "three_keys \<noteq> []"
    by (simp add: three_keys_def)
  note t = bulk_object_delete_accounts_for_every_key
      [OF h1 h2, where cf = cf_b2_rejects and str = js_string]
  have results: "map (\<lambda>k. fst (delete_one cf_b2_rejects js_string (JStr k))) three_keys
      = [JObj [(''key'', JStr ''b1/bundle.zip''), (''success'', JBool True)],
         JObj [(''key'', JStr ''b2/bundle.zip''), (''success'', JBool False),
               (''error'', JStr ''socket hang up'')],
         JObj [(''key'', JStr ''b3/bundle.zip''), (''success'', JBool True)]]"
    by (simp add: three_keys_def delete_one_def cf_b2_rejects_def)
  have flags: "filter success_flag
         [JObj [(''key'', JStr ''b1/bundle.zip''), (''success'', JBool True)],
          JObj [(''key'', JStr ''b2/bundle.zip''), (''success'', JBool False),
                (''error'', JStr ''socket hang up'')],
          JObj [(''key'', JStr ''b3/bundle.zip''), (''success'', JBool True)]]
      = [JObj [(''key'', JStr ''b1/bundle.zip''), (''success'', JBool True)],
         JObj [(''key'', JStr ''b3/bundle.zip''), (''success'', JBool True)]]"
    by (simp add: success_flag_def get_prop_def)
  have len: "length three_keys = 3" and calls: "map DeleteObject three_keys
      = [DeleteObject ''b1/bundle.zip'', DeleteObject ''b2/bundle.zip'', DeleteObject ''b3/bundle.zip'']"
    by (simp_all add: three_keys_def)
  show ?thesis
    using h1 h2 t [unfolded results flags len calls]
    by simp
qed

section \<open>Bulk deletion of bundles\<close>

text \<open>
  Claim C3. For every non-empty selection of bundle ids that the user confirms, the
  console's bulk delete reports success exactly when the count of metadata successes
  or the count of deleted objects is not zero: a lenient or. The count of metadata
  successes is the one \<open>bulkDeleteBundles\<close> writes into its message, next to its count of
  per-bundle storage successes, and its own \<open>success\<close> is true exactly when the first is
  not zero; the count of deleted objects is \<open>deletedObjects\<close> of the bulk request over
  the keys of the whole selection, which is the number of keys whose delete resolved
  with an ok response, and 0 when the R2 configuration is missing. When the client's
  requests reach the server's routes, a bundle counts as a metadata success exactly
  when its D1 delete succeeded, and as a storage success exactly when its object was
  deleted; a bundle whose storage request is rejected (the server is not reached) is
  counted in neither, whatever its D1 delete did. (The witness has scenario D, three
  bundles with the storage delete failing for \<open>b2\<close> only: counts 3 and 2 and success; a
  selection where only the storage count is not zero: success; one where both counts
  are zero: no success; and a bundle whose D1 delete succeeded and whose storage request
  was rejected.)
\<close>

theorem bulk_delete_success_is_lenient_or:
  assumes "selected \<noteq> []"
  shows "(fst (handleBulkDelete p1 p2 (client_route e cf str) True selected)
            = Some (ToastSuccess (''Da xoa '' @ show_nat (length selected) @ '' bundles thanh cong''))
          \<longleftrightarrow> (0 < d1_count p1 p2 selected
               \<or> 0 < deletedObjects_of (bulkDeleteFromR2 (client_route e cf str)
                         (map (\<lambda>i. i @ ''/bundle.zip'') selected))))
       \<and> bulk_message (bulkDeleteBundles p1 p2 selected)
            = Some (''Da xoa '' @ show_nat (d1_count p1 p2 selected) @ ''/''
                    @ show_nat (length selected) @ '' bundles tu D1, Da xoa ''
                    @ show_nat (r2_count p1 p2 selected) @ ''/''
                    @ show_nat (length selected) @ '' bundles tu R2'')
       \<and> (bulk_success (bulkDeleteBundles p1 p2 selected) \<longleftrightarrow> 0 < d1_count p1 p2 selected)
       \<and> deletedObjects_of (bulkDeleteFromR2 (client_route e cf str)
              (map (\<lambda>i. i @ ''/bundle.zip'') selected))
            = (if r2_config_missing e then 0 else deleted_count cf selected)
       \<and> (d1_ok (deleteD1Bundle (served (rpc_delete_d1 e d1)) (served (rpc_r2_delete e cf str))) i
            \<longleftrightarrow> d1_deleted e d1 i)
       \<and> (r2_ok (deleteD1Bundle (served (rpc_delete_d1 e d1)) (served (rpc_r2_delete e cf str))) i
            \<longleftrightarrow> (\<not> r2_config_missing e \<and> object_deleted cf (i @ ''/bundle.zip'')))
       \<and> (p2 i = Rejected x \<longrightarrow>
            \<not> d1_ok (deleteD1Bundle p1 p2) i \<and> \<not> r2_ok (deleteD1Bundle p1 p2) i)"
proof -
  let ?r2 = "bulkDeleteFromR2 (client_route e cf str) (map (\<lambda>i. i @ ''/bundle.zip'') selected)"
  have storage: "truthy (get_prop ?r2 ''success'') \<longleftrightarrow> 0 < deletedObjects_of ?r2"
    and count: "deletedObjects_of ?r2 = (if r2_config_missing e then 0 else deleted_count cf selected)"
  proof -
    show "truthy (get_prop ?r2 ''success'') \<longleftrightarrow> 0 < deletedObjects_of ?r2"
    proof (cases "r2_config_missing e")
      case True
      show ?thesis
        unfolding bulkDeleteFromR2_unconfigured [OF True assms, of cf str]
        by (simp add: get_prop_def deletedObjects_of_def)
    next
      case False
      show ?thesis
        unfolding bulkDeleteFromR2_configured [OF False assms, of cf str]
        by (simp add: get_prop_def deletedObjects_of_def)
    qed
    show "deletedObjects_of ?r2 = (if r2_config_missing e then 0 else deleted_count cf selected)"
    proof (cases "r2_config_missing e")
      case True
      show ?thesis
        unfolding bulkDeleteFromR2_unconfigured [OF True assms, of cf str]
        using True by (simp add: get_prop_def deletedObjects_of_def)
    next
      case False
      show ?thesis
        unfolding bulkDeleteFromR2_configured [OF False assms, of cf str]
        using False by (simp add: get_prop_def deletedObjects_of_def)
    qed
  qed
  have toast: "fst (handleBulkDelete p1 p2 (client_route e cf str) True selected)
            = Some (ToastSuccess (''Da xoa '' @ show_nat (length selected) @ '' bundles thanh cong''))
          \<longleftrightarrow> (0 < d1_count p1 p2 selected \<or> 0 < deletedObjects_of ?r2)"
    unfolding handleBulkDelete_toast [OF assms] bulk_success_d1_count [OF assms] storage ..
  have rejected: "p2 i = Rejected x \<longrightarrow>
            \<not> d1_ok (deleteD1Bundle p1 p2) i \<and> \<not> r2_ok (deleteD1Bundle p1 p2) i"
    by (rule impI) (rule rejected_request_counts_nothing)
  show ?thesis
    using toast bulk_message_counts [OF assms, of p1 p2] bulk_success_d1_count [OF assms, of p1 p2]
      count served_d1_ok [of e d1 cf str i] served_r2_ok [of e d1 cf str i] rejected
    by (intro conjI)
qed

lemma scenario_d_responses:
  "deleteD1Bundle post_d1_ok post_r2_b2_forbidden i =
     \<lparr>dbr_success = Some (JBool (i \<noteq> ''b2'')),
      dbr_message = Some (''Bundle da duoc xoa tu D1'' @ (if i \<noteq> ''b2'' then '' va R2'' else [])),
      dbr_error = None,
      d1Result = Some [(''success'', JBool True),
                       (''message'', JStr ''Bundle da duoc xoa hoan toan khoi D1 database''),
                       (''d1Result'', JObj [(''success'', JBool True)])],
      r2Result = Some (if i = ''b2''
         then [(''success'', JBool False), (''error'', JStr ''Loi khi xoa tu R2: 403 Forbidden'')]
         else [(''success'', JBool True),
               (''message'', JStr (''Da xoa bundle '' @ i @ '' thanh cong tu R2 storage''))])\<rparr>"
proof -
  have cfg: "\<not> d1_config_missing env_ok" "\<not> r2_config_missing env_ok"
    by (simp_all add: d1_config_missing_def r2_config_missing_def env_ok_def)
  have d1: "post_d1_ok i = Resolved [(''success'', JBool True),
                       (''message'', JStr ''Bundle da duoc xoa hoan toan khoi D1 database''),
                       (''d1Result'', JObj [(''success'', JBool True)])]"
    by (simp add: post_d1_ok_def served_def rpc_delete_d1_def cfg d1_all_ok_def json_reply_def)
  have key: "(i @ ''/bundle.zip'' = ''b2/bundle.zip'') = (i = ''b2'')"
    using append_eq_append_conv [of i "''b2''" "''/bundle.zip''" "''/bundle.zip''"]
    by (auto simp del: append_eq_append_conv)
  have r2: "post_r2_b2_forbidden i = Resolved (if i = ''b2''
         then [(''success'', JBool False), (''error'', JStr ''Loi khi xoa tu R2: 403 Forbidden'')]
         else [(''success'', JBool True),
               (''message'', JStr (''Da xoa bundle '' @ i @ '' thanh cong tu R2 storage''))])"
    by (simp add: post_r2_b2_forbidden_def served_def rpc_r2_delete_def cfg cf_b2_forbidden_def
          json_reply_def Let_def key show_nat.simps)
  show ?thesis
    by (simp add: deleteD1Bundle_def d1 r2 js_and_def get_prop_def)
qed

lemma unconfigured_d1_responses:
  "deleteD1Bundle post_d1_unconfigured post_r2_ok i =
     \<lparr>dbr_success = Some (JBool False),
      dbr_message = Some ''Bundle da duoc xoa tu D1 va R2'',
      dbr_error = None,
      d1Result = Some [(''success'', JBool False),
                       (''error'', JStr ''Thieu thong tin cau hinh Cloudflare D1'')],
      r2Result = Some [(''success'', JBool True),
                       (''message'', JStr (''Da xoa bundle '' @ i @ '' thanh cong tu R2 storage''))]\<rparr>"
proof -
  have cfg: "d1_config_missing env_no_d1" "\<not> r2_config_missing env_no_d1"
    by (simp_all add: d1_config_missing_def r2_config_missing_def env_no_d1_def env_ok_def)
  have d1: "post_d1_unconfigured i = Resolved [(''success'', JBool False),
                        (''error'', JStr ''Thieu thong tin cau hinh Cloudflare D1'')]"
    by (simp add: post_d1_unconfigured_def served_def rpc_delete_d1_def cfg json_reply_def)
  have r2: "post_r2_ok i = Resolved [(''success'', JBool True),
               (''message'', JStr (''Da xoa bundle '' @ i @ '' thanh cong tu R2 storage''))]"
    by (simp add: post_r2_ok_def served_def rpc_r2_delete_def cfg cf_all_ok_def json_reply_def Let_def)
  show ?thesis
    by (simp add: deleteD1Bundle_def d1 r2 js_and_def get_prop_def)
qed

theorem bulk_delete_success_is_lenient_or_witness:
  "[''b1'', ''b2'', ''b3''] \<noteq> [] \<and> [''b1''] \<noteq> [] \<and> [''b2''] \<noteq> []
   \<and> d1_count post_d1_ok post_r2_b2_forbidden [''b1'', ''b2'', ''b3''] = 3
   \<and> r2_count post_d1_ok post_r2_b2_forbidden [''b1'', ''b2'', ''b3''] = 2
   \<and> bulk_message (bulkDeleteBundles post_d1_ok post_r2_b2_forbidden [''b1'', ''b2'', ''b3''])
      = Some ''Da xoa 3/3 bundles tu D1, Da xoa 2/3 bundles tu R2''
   \<and> bulk_success (bulkDeleteBundles post_d1_ok post_r2_b2_forbidden [''b1'', ''b2'', ''b3''])
   \<and> deletedObjects_of (bulkDeleteFromR2 (client_route env_ok cf_b2_forbidden js_string)
         (map (\<lambda>i. i @ ''/bundle.zip'') [''b1'', ''b2'', ''b3''])) = 2
   \<and> fst (handleBulkDelete post_d1_ok post_r2_b2_forbidden
            (client_route env_ok cf_b2_forbidden js_string) True [''b1'', ''b2'', ''b3''])
      = Some (ToastSuccess ''Da xoa 3 bundles thanh cong'')
   \<and> d1_count post_d1_unconfigured post_r2_ok [''b1''] = 0
   \<and> deletedObjects_of (bulkDeleteFromR2 (client_route env_no_d1 cf_all_ok js_string)
         (map (\<lambda>i. i @ ''/bundle.zip'') [''b1''])) = 1
   \<and> fst (handleBulkDelete post_d1_unconfigured post_r2_ok
            (client_route env_no_d1 cf_all_ok js_string) True [''b1''])
      = Some (ToastSuccess ''Da xoa 1 bundles thanh cong'')
   \<and> d1_count post_d1_unconfigured post_r2_ok [''b2''] = 0
   \<and> deletedObjects_of (bulkDeleteFromR2 (client_route env_no_d1 cf_b2_forbidden js_string)
         (map (\<lambda>i. i @ ''/bundle.zip'') [''b2''])) = 0
   \<and> fst (handleBulkDelete post_d1_unconfigured post_r2_ok
            (client_route env_no_d1 cf_b2_forbidden js_string) True [''b2''])
      \<noteq> Some (ToastSuccess ''Da xoa 1 bundles thanh cong'')
   \<and> d1_deleted env_ok d1_all_ok ''b1''
   \<and> \<not> d1_ok (deleteD1Bundle post_d1_ok (\<lambda>i. Rejected (JsError ''Failed to fetch''))) ''b1''
   \<and> \<not> r2_ok (deleteD1Bundle post_d1_ok (\<lambda>i. Rejected (JsError ''Failed to fetch''))) ''b1''"
proof -
  have ne3: "[''b1'', ''b2'', ''b3''] \<noteq> ([] :: string list)"
    and ne1: "[''b1''] \<noteq> ([] :: string list)" and ne2: "[''b2''] \<noteq> ([] :: string list)"
    by simp_all
  note a = bulk_delete_success_is_lenient_or
      [OF ne3, where ?p1.0 = post_d1_ok and ?p2.0 = post_r2_b2_forbidden and e = env_ok
         and cf = cf_b2_forbidden and str = js_string]
  note b = bulk_delete_success_is_lenient_or
      [OF ne1, where ?p1.0 = post_d1_unconfigured and ?p2.0 = post_r2_ok and e = env_no_d1
         and cf = cf_all_ok and str = js_string]
  note c = bulk_delete_success_is_lenient_or
      [OF ne2, where ?p1.0 = post_d1_unconfigured and ?p2.0 = post_r2_ok and e = env_no_d1
         and cf = cf_b2_forbidden and str = js_string]
  have cfg: "\<not> r2_config_missing env_ok" "\<not> r2_config_missing env_no_d1"
    by (simp_all add: r2_config_missing_def env_no_d1_def env_ok_def)
  have d3: "d1_count post_d1_ok post_r2_b2_forbidden [''b1'', ''b2'', ''b3''] = 3"
    by (simp add: d1_count_def d1_ok_def scenario_d_responses get_prop_def)
  have r3: "r2_count post_d1_ok post_r2_b2_forbidden [''b1'', ''b2'', ''b3''] = 2"
    by (simp add: r2_count_def r2_ok_def scenario_d_responses get_prop_def js_or_def)
  have s3: "deleted_count cf_b2_forbidden [''b1'', ''b2'', ''b3''] = 2"
    by (simp add: deleted_count_def object_deleted_def cf_b2_forbidden_def)
  have d1: "d1_count post_d1_unconfigured post_r2_ok [''b1''] = 0"
    and d2: "d1_count post_d1_unconfigured post_r2_ok [''b2''] = 0"
    by (simp_all add: d1_count_def d1_ok_def unconfigured_d1_responses get_prop_def)
  have s1: "deleted_count cf_all_ok [''b1''] = 1"
    by (simp add: deleted_count_def object_deleted_def cf_all_ok_def)
  have s2: "deleted_count cf_b2_forbidden [''b2''] = 0"
    by (simp add: deleted_count_def object_deleted_def cf_b2_forbidden_def)
  have n3: "show_nat (length [''b1'', ''b2'', ''b3'']) = ''3''" "show_nat 3 = ''3''" "show_nat 2 = ''2''"
    and n1: "show_nat (length [''b1'']) = ''1''" "show_nat (length [''b2'']) = ''1''"
    by (simp_all add: show_nat.simps)
  note a' = a [unfolded d3 r3 s3 n3, simplified cfg]
  note b' = b [unfolded d1 s1 n1, simplified cfg]
  note c' = c [unfolded d2 s2 n1, simplified cfg]
  have ta: "fst (handleBulkDelete post_d1_ok post_r2_b2_forbidden
            (client_route env_ok cf_b2_forbidden js_string) True [''b1'', ''b2'', ''b3''])
      = Some (ToastSuccess ''Da xoa 3 bundles thanh cong'')"
    using a' by simp
  have tb: "fst (handleBulkDelete post_d1_unconfigured post_r2_ok
            (client_route env_no_d1 cf_all_ok js_string) True [''b1''])
      = Some (ToastSuccess ''Da xoa 1 bundles thanh cong'')"
    using b' by simp
  have tc: "fst (handleBulkDelete post_d1_unconfigured post_r2_ok
            (client_route env_no_d1 cf_b2_forbidden js_string) True [''b2''])
      \<noteq> Some (ToastSuccess ''Da xoa 1 bundles thanh cong'')"
    using c' by simp
  have dd: "d1_deleted env_ok d1_all_ok ''b1''"
    by (simp add: d1_deleted_def d1_config_missing_def env_ok_def d1_all_ok_def)
  have rej: "(\<lambda>i. Rejected (JsError ''Failed to fetch'') :: obj fetched) ''b1''
               = Rejected (JsError ''Failed to fetch'')"
    by simp
  note d = bulk_delete_success_is_lenient_or
      [OF ne1, where ?p1.0 = post_d1_ok and ?p2.0 = "\<lambda>i. Rejected (JsError ''Failed to fetch'')"
         and i = "''b1''" and x = "JsError ''Failed to fetch''",
       THEN conjunct2, THEN conjunct2, THEN conjunct2, THEN conjunct2, THEN conjunct2,
       THEN conjunct2, THEN mp, OF rej]
  have "[''b1'', ''b2'', ''b3''] \<noteq> ([] :: string list) \<and> [''b1''] \<noteq> ([] :: string list)
        \<and> [''b2''] \<noteq> ([] :: string list)"
    by simp
  moreover have "d1_count post_d1_ok post_r2_b2_forbidden [''b1'', ''b2'', ''b3''] = 3
     \<and> r2_count post_d1_ok post_r2_b2_forbidden [''b1'', ''b2'', ''b3''] = 2"
    using d3 r3 by simp
  ultimately show ?thesis
    using d1 d2 ta tb tc a' b' c' dd d
    by simp
qed

section \<open>Listing the objects of a bucket\<close>

text \<open>
  Claim C8, as amended. With the R2 configuration present, \<open>rpc.get("/r2/objects")\<close>
  sends exactly one list request, with \<open>limit=1000\<close> and neither prefix nor cursor, and
  returns exactly the objects of that one response; the truncation marker is not read.
  Against a backend that pages, the result is the first page of the whole bucket, the
  first \<open>min 1000 n\<close> objects for page size \<open>n\<close>, objects of other bundles included. For
  every bundle id, the entries of the result whose key is under \<open>{id}/\<close> are the
  objects stored under \<open>{id}/\<close> that lie on that page, whatever their filenames: they
  are exactly the N objects stored under \<open>{id}/\<close> if and only if none of these lies
  beyond the first page. The other listings of the server (complete delete, bundle
  sizes) send at most one list request as well.
\<close>

theorem listing_is_first_page_of_whole_bucket:
  assumes "\<not> r2_config_missing e"
  shows "snd (rpc_get_r2_objects e cf) = [ListObjects \<lparr>q_prefix = None, q_limit = Some 1000\<rparr>]
       \<and> (cf \<lparr>q_prefix = None, q_limit = Some 1000\<rparr> = Resolved (CfOk (Inr data)) \<longrightarrow>
            listed (fst (rpc_get_r2_objects e cf)) = map object_json (objects data))
       \<and> listed (fst (rpc_get_r2_objects e (paged_listing bucket n)))
            = map object_json (take (min 1000 n) bucket)
       \<and> filter (key_under bundleId) (listed (fst (rpc_get_r2_objects e (paged_listing bucket n))))
            = map object_json (stored_under (take (min 1000 n) bucket) bundleId)
       \<and> (filter (key_under bundleId) (listed (fst (rpc_get_r2_objects e (paged_listing bucket n))))
            = map object_json (stored_under bucket bundleId)
          \<longleftrightarrow> stored_under (drop (min 1000 n) bucket) bundleId = [])
       \<and> (snd (snd (rpc_complete_delete e prepared db cfl lb bundleId)) = []
            \<or> snd (snd (rpc_complete_delete e prepared db cfl lb bundleId))
                = [ListObjects \<lparr>q_prefix = Some bundleId, q_limit = None\<rparr>])
       \<and> (snd (rpc_bundle_sizes e cfs req) = []
            \<or> snd (rpc_bundle_sizes e cfs req)
                = [ListObjects \<lparr>q_prefix = None, q_limit = Some 1000\<rparr>])"
proof -
  have page: "paged_listing bucket n \<lparr>q_prefix = None, q_limit = Some 1000\<rparr>
      = Resolved (CfOk (Inr \<lparr>objects = take (min 1000 n) bucket,
                              truncated = (min 1000 n < length bucket)\<rparr>))"
    by (simp add: paged_listing_def first_page_all)
  have paged: "listed (fst (rpc_get_r2_objects e (paged_listing bucket n)))
      = map object_json (take (min 1000 n) bucket)"
    using rpc_get_r2_objects_ok [where cf = "paged_listing bucket n", OF assms page]
    by (simp add: listed_ok)
  have any: "cf \<lparr>q_prefix = None, q_limit = Some 1000\<rparr> = Resolved (CfOk (Inr data)) \<longrightarrow>
            listed (fst (rpc_get_r2_objects e cf)) = map object_json (objects data)"
    using rpc_get_r2_objects_ok [where cf = cf and data = data, OF assms]
    by (simp add: listed_ok)
  have under: "filter (key_under bundleId) (listed (fst (rpc_get_r2_objects e (paged_listing bucket n))))
            = map object_json (stored_under (take (min 1000 n) bucket) bundleId)"
    unfolding paged by (rule filter_key_under)
  have exact: "filter (key_under bundleId) (listed (fst (rpc_get_r2_objects e (paged_listing bucket n))))
            = map object_json (stored_under bucket bundleId)
          \<longleftrightarrow> stored_under (drop (min 1000 n) bucket) bundleId = []"
    unfolding under by (rule first_page_complete_iff)
  show ?thesis
    using rpc_get_r2_objects_calls [OF assms, of cf] any paged under exact
      rpc_complete_delete_calls [of e prepared db cfl lb bundleId]
      rpc_bundle_sizes_calls [of e cfs req]
    by (intro conjI)
qed

theorem listing_is_first_page_of_whole_bucket_witness:
  "\<not> r2_config_missing env_ok
   \<and> paged_listing bucket_two 1000 \<lparr>q_prefix = None, q_limit = Some 1000\<rparr>
      = Resolved (CfOk (Inr \<lparr>objects = bucket_two, truncated = False\<rparr>))
   \<and> stored_under (drop (min 1000 1000) bucket_two) ''b2'' = []
   \<and> snd (rpc_get_r2_objects env_ok (paged_listing bucket_two 1000))
      = [ListObjects \<lparr>q_prefix = None, q_limit = Some 1000\<rparr>]
   \<and> listed (fst (rpc_get_r2_objects env_ok (paged_listing bucket_two 1000)))
      = map object_json bucket_two
   \<and> stored_under bucket_two ''b2'' = bucket_b2
   \<and> filter (key_under ''b2'') (listed (fst (rpc_get_r2_objects env_ok (paged_listing bucket_two 1000))))
      = map object_json bucket_b2"
proof -
  have len: "length bucket_two = 4" by (simp add: bucket_two_def bucket_b2_def)
  have h2: "paged_listing bucket_two 1000 \<lparr>q_prefix = None, q_limit = Some 1000\<rparr>
      = Resolved (CfOk (Inr \<lparr>objects = bucket_two, truncated = False\<rparr>))"
    by (simp add: paged_listing_def first_page_def Let_def len)
  have h3: "stored_under (drop (min 1000 1000) bucket_two) ''b2'' = []"
    by (simp add: len stored_under_def)
  note t = listing_is_first_page_of_whole_bucket
      [OF cfg_ok, where cf = "paged_listing bucket_two 1000" and bucket = bucket_two and n = 1000
         and data = "\<lparr>objects = bucket_two, truncated = False\<rparr>" and bundleId = "''b2''"]
  note c1 = t [THEN conjunct1]
  note c2 = t [THEN conjunct2, THEN conjunct1, THEN mp, OF h2]
  note c5 = t [THEN conjunct2, THEN conjunct2, THEN conjunct2, THEN conjunct2, THEN conjunct1,
               THEN iffD2, OF h3, unfolded under_bucket_two]
  have objs: "objects \<lparr>objects = bucket_two, truncated = False\<rparr> = bucket_two" by simp
  show ?thesis
    using cfg_ok h2 h3 c1 c2 [unfolded objs] under_bucket_two c5
    by (intro conjI)
qed

theorem listing_not_exactly_prefix_counterexample:
  "length (stored_under bucket_b2 ''b2'') = 3
   \<and> truncated (first_page bucket_b2 2 \<lparr>q_prefix = None, q_limit = Some 1000\<rparr>)
   \<and> listed (fst (rpc_get_r2_objects env_ok (paged_listing bucket_b2 2)))
      = [object_json (stored_object ''b2/bundle.zip'' 1000), object_json (stored_object ''b2/index.js'' 20)]
   \<and> listed (fst (rpc_get_r2_objects env_ok (paged_listing bucket_b2 2)))
      \<noteq> map object_json (stored_under bucket_b2 ''b2'')
   \<and> length (stored_under bucket_two ''b2'') = 3
   \<and> \<not> truncated (first_page bucket_two 1000 \<lparr>q_prefix = None, q_limit = Some 1000\<rparr>)
   \<and> listed (fst (rpc_get_r2_objects env_ok (paged_listing bucket_two 1000)))
      = object_json (stored_object ''b1/bundle.zip'' 1000) # map object_json (stored_under bucket_two ''b2'')
   \<and> listed (fst (rpc_get_r2_objects env_ok (paged_listing bucket_two 1000)))
      \<noteq> map object_json (stored_under bucket_two ''b2'')"
proof -
  have under: "stored_under bucket_b2 ''b2'' = bucket_b2"
    by (simp add: stored_under_def bucket_b2_def stored_object_def)
  have len: "length bucket_b2 = 3" "length bucket_two = 4"
    by (simp_all add: bucket_two_def bucket_b2_def)
  have page: "first_page bucket_b2 2 \<lparr>q_prefix = None, q_limit = Some 1000\<rparr>
      = \<lparr>objects = [stored_object ''b2/bundle.zip'' 1000, stored_object ''b2/index.js'' 20],
         truncated = True\<rparr>"
    by (simp add: first_page_def Let_def bucket_b2_def)
  have page2: "first_page bucket_two 1000 \<lparr>q_prefix = None, q_limit = Some 1000\<rparr>
      = \<lparr>objects = bucket_two, truncated = False\<rparr>"
    by (simp add: first_page_def Let_def len)
  have run: "rpc_get_r2_objects env_ok (paged_listing bucket_b2 2)
      = (json_reply [(''success'', JBool True),
            (''objects'', JArr [object_json (stored_object ''b2/bundle.zip'' 1000),
                                object_json (stored_object ''b2/index.js'' 20)])] 200,
         [ListObjects \<lparr>q_prefix = None, q_limit = Some 1000\<rparr>])"
    by (simp add: rpc_get_r2_objects_def cfg_ok Let_def paged_listing_def page)
  have lst: "listed (fst (rpc_get_r2_objects env_ok (paged_listing bucket_b2 2)))
      = [object_json (stored_object ''b2/bundle.zip'' 1000), object_json (stored_object ''b2/index.js'' 20)]"
    by (simp add: run listed_ok)
  have neq: "listed (fst (rpc_get_r2_objects env_ok (paged_listing bucket_b2 2)))
      \<noteq> map object_json (stored_under bucket_b2 ''b2'')"
    unfolding lst under by (simp add: bucket_b2_def)
  have lst2: "listed (fst (rpc_get_r2_objects env_ok (paged_listing bucket_two 1000)))
      = object_json (stored_object ''b1/bundle.zip'' 1000) # map object_json (stored_under bucket_two ''b2'')"
    unfolding listing_bucket_two under_bucket_two by (simp add: listed_ok bucket_two_def)
  have neq2: "listed (fst (rpc_get_r2_objects env_ok (paged_listing bucket_two 1000)))
      \<noteq> map object_json (stored_under bucket_two ''b2'')"
    unfolding lst2 by simp
  show ?thesis
    using under len page page2 lst neq lst2 neq2 under_bucket_two by simp
qed

section \<open>Missing storage configuration\<close>

text \<open>
  Claim C9. When the API token, the account id or the bucket name is missing (unset or
  empty), every route that needs the R2 configuration answers a well-formed request
  with \<open>success: false\<close> and its configuration error, and sends no request to
  Cloudflare: the single delete, the listing, the delete of one object, the bulk delete
  of objects and the bundle sizes. The complete delete is the exception: it disables
  and commits the record first and then answers \<open>success: true\<close> with status 200 and
  the message that the files could not be deleted for lack of configuration, again
  without a request to Cloudflare.
\<close>

theorem missing_r2_configuration:
  assumes "r2_config_missing e"
  shows "rpc_r2_delete e cfd str bundleId
           = (json_reply [(''success'', JBool False),
                          (''error'', JStr ''Thieu thong tin cau hinh Cloudflare R2'')] 400, [])
       \<and> rpc_get_r2_objects e cfl
           = (json_reply [(''success'', JBool False),
                          (''error'', JStr ''Thieu thong tin cau hinh Cloudflare'')] 400, [])
       \<and> (truthy (get_prop req ''key'') \<longrightarrow>
            rpc_delete_r2_object e cfo (Resolved req)
              = (json_reply [(''success'', JBool False),
                             (''error'', JStr ''Thieu thong tin cau hinh Cloudflare'')] 400, []))
       \<and> (keys \<noteq> [] \<longrightarrow>
            rpc_delete_r2_objects e cfd str (Resolved (JArr keys))
              = (json_reply [(''success'', JBool False),
                             (''error'', JStr ''Thieu cau hinh R2'')] 500, []))
       \<and> (get_prop req2 ''bundleIds'' = Some (JArr ids) \<longrightarrow>
            rpc_bundle_sizes e cfs (Resolved req2)
              = (json_reply [(''success'', JBool False),
                             (''error'', JStr ''Thieu thong tin cau hinh Cloudflare'')] 400, []))
       \<and> (updateBundle db bundleId False = Inr db1 \<and> commitBundle db1 = Inr db2 \<longrightarrow>
            rpc_complete_delete e (Inr cfg) db cfc lb bundleId
              = (json_reply
                   [(''success'', JBool True),
                    (''message'', JStr ''Bundle da bi vo hieu hoa trong database, nhung khong the xoa tu R2 do thieu cau hinh'')]
                   200, db2, []))
       \<and> (update_fault db = None \<and> commit_fault db = None \<and> staged db = []
            \<and> rows db bundleId = Some b \<longrightarrow>
            rows (fst (snd (rpc_complete_delete e (Inr cfg) db cfc lb bundleId))) bundleId
              = Some (b\<lparr>enabled := False\<rparr>)
            \<and> status (fst (rpc_complete_delete e (Inr cfg) db cfc lb bundleId)) = 200
            \<and> get_prop (body (fst (rpc_complete_delete e (Inr cfg) db cfc lb bundleId))) ''success''
                = Some (JBool True)
            \<and> snd (snd (rpc_complete_delete e (Inr cfg) db cfc lb bundleId)) = [])"
  (is "?a \<and> ?b \<and> ?c \<and> ?d \<and> ?e \<and> ?f \<and> ?g")
proof (intro conjI)
  show ?a using assms by (simp add: rpc_r2_delete_def)
  show ?b using assms by (simp add: rpc_get_r2_objects_def)
  show ?c using assms by (simp add: rpc_delete_r2_object_def Let_def)
  show ?d using assms by (cases keys) (simp_all add: rpc_delete_r2_objects_def)
  show ?e using assms by (simp add: rpc_bundle_sizes_def)
  show ?f using assms by (simp add: rpc_complete_delete_unconfigured)
  show ?g
  proof (intro impI, elim conjE)
    assume f: "update_fault db = None" "commit_fault db = None" "staged db = []"
       "rows db bundleId = Some b"
    from disable_then_commit [OF f] obtain d1 d2 where
      u: "updateBundle db bundleId False = Inr d1" and c: "commitBundle d1 = Inr d2"
      and r: "rows d2 bundleId = Some (b\<lparr>enabled := False\<rparr>)"
      by (elim exE conjE)
    show "rows (fst (snd (rpc_complete_delete e (Inr cfg) db cfc lb bundleId))) bundleId
              = Some (b\<lparr>enabled := False\<rparr>)
            \<and> status (fst (rpc_complete_delete e (Inr cfg) db cfc lb bundleId)) = 200
            \<and> get_prop (body (fst (rpc_complete_delete e (Inr cfg) db cfc lb bundleId))) ''success''
                = Some (JBool True)
            \<and> snd (snd (rpc_complete_delete e (Inr cfg) db cfc lb bundleId)) = []"
      unfolding rpc_complete_delete_unconfigured [OF assms u c]
      using r by (simp add: json_reply_def get_prop_def)
  qed
qed

theorem missing_r2_configuration_witness:
  "r2_config_missing env_no_bucket
   \<and> rpc_r2_delete env_no_bucket cf_all_ok js_string ''b2''
       = (json_reply [(''success'', JBool False),
                      (''error'', JStr ''Thieu thong tin cau hinh Cloudflare R2'')] 400, [])
   \<and> truthy (get_prop [(''key'', JStr ''b2/bundle.zip'')] ''key'')
   \<and> rpc_delete_r2_object env_no_bucket cfo_all_ok (Resolved [(''key'', JStr ''b2/bundle.zip'')])
       = (json_reply [(''success'', JBool False),
                      (''error'', JStr ''Thieu thong tin cau hinh Cloudflare'')] 400, [])
   \<and> map JStr three_keys \<noteq> []
   \<and> rpc_delete_r2_objects env_no_bucket cf_all_ok js_string (Resolved (JArr (map JStr three_keys)))
       = (json_reply [(''success'', JBool False), (''error'', JStr ''Thieu cau hinh R2'')] 500, [])
   \<and> get_prop [(''bundleIds'', JArr [JStr ''b2''])] ''bundleIds'' = Some (JArr [JStr ''b2''])
   \<and> rpc_bundle_sizes env_no_bucket (sizes_listing bucket_b1_sizes)
         (Resolved [(''bundleIds'', JArr [JStr ''b2''])])
       = (json_reply [(''success'', JBool False),
                      (''error'', JStr ''Thieu thong tin cau hinh Cloudflare'')] 400, [])
   \<and> updateBundle (db_of ''b2'') ''b2'' False = Inr ((db_of ''b2'')\<lparr>staged := [(''b2'', False)]\<rparr>)
   \<and> commitBundle ((db_of ''b2'')\<lparr>staged := [(''b2'', False)]\<rparr>)
       = Inr ((db_of ''b2'')\<lparr>rows := [''b2'' \<mapsto> (bundle_of ''b2'')\<lparr>enabled := False\<rparr>]\<rparr>)
   \<and> rpc_complete_delete env_no_bucket (Inr \<lparr>storage = None\<rparr>) (db_of ''b2'')
         (prefix_listing bucket_b2) (loopback_route env_no_bucket cf_all_ok js_string) ''b2''
       = (json_reply
            [(''success'', JBool True),
             (''message'', JStr ''Bundle da bi vo hieu hoa trong database, nhung khong the xoa tu R2 do thieu cau hinh'')]
            200,
          (db_of ''b2'')\<lparr>rows := [''b2'' \<mapsto> (bundle_of ''b2'')\<lparr>enabled := False\<rparr>]\<rparr>, [])
   \<and> update_fault (db_of ''b2'') = None \<and> commit_fault (db_of ''b2'') = None
   \<and> staged (db_of ''b2'') = [] \<and> rows (db_of ''b2'') ''b2'' = Some (bundle_of ''b2'')
   \<and> rows (fst (snd (rpc_complete_delete env_no_bucket (Inr \<lparr>storage = None\<rparr>) (db_of ''b2'')
               (prefix_listing bucket_b2) (loopback_route env_no_bucket cf_all_ok js_string) ''b2''))) ''b2''
       = Some ((bundle_of ''b2'')\<lparr>enabled := False\<rparr>)
   \<and> get_prop (body (fst (rpc_complete_delete env_no_bucket (Inr \<lparr>storage = None\<rparr>) (db_of ''b2'')
               (prefix_listing bucket_b2) (loopback_route env_no_bucket cf_all_ok js_string) ''b2'')))
         ''success'' = Some (JBool True)
   \<and> snd (snd (rpc_complete_delete env_no_bucket (Inr \<lparr>storage = None\<rparr>) (db_of ''b2'')
               (prefix_listing bucket_b2) (loopback_route env_no_bucket cf_all_ok js_string) ''b2'')) = []"
proof -
  have h: "r2_config_missing env_no_bucket"
    by (simp add: r2_config_missing_def env_no_bucket_def env_ok_def)
  note t = missing_r2_configuration
      [OF h, where cfd = cf_all_ok and str = js_string and bundleId = "''b2''"
         and req = "[(''key'', JStr ''b2/bundle.zip'')]" and cfo = cfo_all_ok
         and keys = "map JStr three_keys"
         and ?req2.0 = "[(''bundleIds'', JArr [JStr ''b2''])]" and ids = "[JStr ''b2'']"
         and cfs = "sizes_listing bucket_b1_sizes"
         and db = "db_of ''b2''" and ?db1.0 = "(db_of ''b2'')\<lparr>staged := [(''b2'', False)]\<rparr>"
         and ?db2.0 = "(db_of ''b2'')\<lparr>rows := [''b2'' \<mapsto> (bundle_of ''b2'')\<lparr>enabled := False\<rparr>]\<rparr>"
         and cfg = "\<lparr>storage = None\<rparr>" and b = "bundle_of ''b2''"
         and cfc = "prefix_listing bucket_b2"
         and lb = "loopback_route env_no_bucket cf_all_ok js_string"]
  have h3: "truthy (get_prop [(''key'', JStr ''b2/bundle.zip'')] ''key'')"
    by (simp add: get_prop_def)
  have h4: "map JStr three_keys \<noteq> []"
    by (simp add: three_keys_def)
  have h5: "get_prop [(''bundleIds'', JArr [JStr ''b2''])] ''bundleIds'' = Some (JArr [JStr ''b2''])"
    by (simp add: get_prop_def)
  have h7: "update_fault (db_of ''b2'') = None \<and> commit_fault (db_of ''b2'') = None
      \<and> staged (db_of ''b2'') = [] \<and> rows (db_of ''b2'') ''b2'' = Some (bundle_of ''b2'')"
    by (simp add: db_of_def)
  have h6a: "updateBundle (db_of ''b2'') ''b2'' False = Inr ((db_of ''b2'')\<lparr>staged := [(''b2'', False)]\<rparr>)"
    by (simp add: updateBundle_def db_of_def)
  have h6b: "commitBundle ((db_of ''b2'')\<lparr>staged := [(''b2'', False)]\<rparr>)
       = Inr ((db_of ''b2'')\<lparr>rows := [''b2'' \<mapsto> (bundle_of ''b2'')\<lparr>enabled := False\<rparr>]\<rparr>)"
    by (simp add: commitBundle_def apply_staged_def db_of_def)
  note c6 = t [THEN conjunct2, THEN conjunct2, THEN conjunct2, THEN conjunct2, THEN conjunct2,
               THEN conjunct1, THEN mp, OF conjI [OF h6a h6b]]
  note c1 = t [THEN conjunct1]
  note c3 = t [THEN conjunct2, THEN conjunct2, THEN conjunct1, THEN mp, OF h3]
  note c4 = t [THEN conjunct2, THEN conjunct2, THEN conjunct2, THEN conjunct1, THEN mp, OF h4]
  note c5 = t [THEN conjunct2, THEN conjunct2, THEN conjunct2, THEN conjunct2, THEN conjunct1,
               THEN mp, OF h5]
  note c7 = t [THEN conjunct2, THEN conjunct2, THEN conjunct2, THEN conjunct2, THEN conjunct2,
               THEN conjunct2, THEN mp, OF h7]
  show ?thesis
    using h c1 h3 c3 h4 c4 h5 c5 h6a h6b c6 h7 c7
    by (intro conjI) (assumption | erule conjunct1 | erule conjunct2
                      | (erule conjunct2 [THEN conjunct1])
                      | (erule conjunct2 [THEN conjunct2])
                      | (erule conjunct2 [THEN conjunct2, THEN conjunct1])
                      | (erule conjunct2 [THEN conjunct2, THEN conjunct2]))+
qed

section \<open>The size cache and the size zero\<close>

text \<open>
  Claim C2, at the input where \<open>getFileSizes\<close> departs from it. The bucket holds no
  object under \<open>missing-id/\<close>, so its size is 0. The first call sends one request and
  records 0 in the cache; the second call, from that cache, sends the request again,
  because \<open>!fileSizeCache[id]\<close> holds for a recorded 0: two requests for two calls.
  (Sizes other than 0 are not fetched again: lemma \<open>cached_sizes_not_fetched\<close>.)
\<close>

theorem size_zero_is_fetched_again:
  "getFileSizes post_sizes_b1 [] [''missing-id'']
     = ([(''missing-id'', JNum 0)], [(''missing-id'', JNum 0)], [[''missing-id'']])
   \<and> getFileSizes post_sizes_b1 (fst (snd (getFileSizes post_sizes_b1 [] [''missing-id''])))
         [''missing-id'']
     = ([(''missing-id'', JNum 0)], [(''missing-id'', JNum 0)], [[''missing-id'']])
   \<and> length (snd (snd (getFileSizes post_sizes_b1 [] [''missing-id'']))
        @ snd (snd (getFileSizes post_sizes_b1
             (fst (snd (getFileSizes post_sizes_b1 [] [''missing-id''])))
             [''missing-id''])))
     = 2"
  by (simp add: first_call second_call)

section \<open>Complete delete and the body of its bulk request\<close>

text \<open>
  Claim C4, at the input where the route departs from it: the bundle \<open>b2\<close> with three
  objects under its prefix, every call to the storage succeeding. The route disables
  the record and lists the three keys, then sends them to \<open>/rpc/r2/objects\<close> as
  \<open>{ keys: [...] }\<close>. That route wants the array itself as the body, so it answers that
  the list of keys is invalid and sends no delete request: the result carries neither
  \<open>deletedObjects\<close> nor \<open>totalObjects\<close>, and its message reads
  \<open>undefined/undefined\<close>. If the relative URL cannot be fetched the route answers
  status 500. The client's \<open>bulkDeleteFromR2\<close> sends the array itself and, for the same
  keys, gets \<open>deletedObjects\<close> 3 and \<open>totalObjects\<close> 3.
\<close>

theorem complete_delete_sends_keys_object:
  "map object_key (stored_under bucket_b2 ''b2'') = b2_keys
   \<and> fst (rpc_complete_delete env_ok (Inr \<lparr>storage = None\<rparr>) (db_of ''b2'')
            (prefix_listing bucket_b2) (loopback_route env_ok cf_all_ok js_string) ''b2'')
      = json_reply
          [(''success'', JBool True),
           (''message'', JStr ''Bundle da bi vo hieu hoa trong database, undefined/undefined file da bi xoa tu R2''),
           (''r2Result'', JObj [(''success'', JBool False),
                (''error'', JStr ''Danh sach keys khong hop le hoac trong'')])]
          200
   \<and> snd (snd (rpc_complete_delete env_ok (Inr \<lparr>storage = None\<rparr>) (db_of ''b2'')
            (prefix_listing bucket_b2) (loopback_route env_ok cf_all_ok js_string) ''b2''))
      = [ListObjects \<lparr>q_prefix = Some ''b2'', q_limit = None\<rparr>]
   \<and> snd (rpc_delete_r2_objects env_ok cf_all_ok js_string
            (Resolved (JObj [(''keys'', JArr (map JStr b2_keys))]))) = []
   \<and> fst (rpc_complete_delete env_ok (Inr \<lparr>storage = None\<rparr>) (db_of ''b2'')
            (prefix_listing bucket_b2) loopback_unreachable ''b2'')
      = json_reply [(''success'', JBool False),
                    (''error'', JStr ''Only absolute URLs are supported'')] 500
   \<and> get_prop (bulkDeleteFromR2 (client_route env_ok cf_all_ok js_string) b2_keys) ''deletedObjects''
      = Some (JNum 3)
   \<and> get_prop (bulkDeleteFromR2 (client_route env_ok cf_all_ok js_string) b2_keys) ''totalObjects''
      = Some (JNum 3)"
proof -
  have under: "map object_key (stored_under bucket_b2 ''b2'') = b2_keys"
    by (simp add: stored_under_def bucket_b2_def stored_object_def b2_keys_def)
  show ?thesis
    by (simp add: under complete_delete_b2 complete_delete_b2_unreachable loopback_keys_object
          bulk_from_client_b2 get_prop_def)
qed

end
